theory Spec2Isabelle
  imports Main
begin

section \<open>Service descriptor, errors and the operating system\<close>

text \<open>
  Both \<^verbatim>\<open>systemDRecord\<close> and \<^verbatim>\<open>systemVRecord\<close> are structs with the same five
  string fields. One record type carries them; which backend it belongs to is the
  constructor of \<open>daemon\<close> (see the construction of a backend).
\<close>

record serviceRecord =
  name :: string
  port :: string
  version :: string
  description :: string
  dependencies :: "string list"

text \<open>
  The package-level error values the backends return. \<open>ErrOS\<close> is whatever the
  operating system or a native command reported.
\<close>

datatype error =
    ErrPermissionDenied
  | ErrAlreadyInstalled
  | ErrNotInstalled
  | ErrAlreadyRunning
  | ErrAlreadyStopped
  | ErrOS string

text \<open>
  The two status markers \<^verbatim>\<open>success\<close> and \<^verbatim>\<open>failed\<close> are package constants that
  the backends append to every action message. Their text is declared in another file
  of the package, so the backends take them as a parameter.
\<close>

record markers =
  success :: string
  failed :: string

text \<open>
  The file system is a flat table from path names to entries. Every call that changes
  the file system or starts a native command is appended to \<open>trace\<close>, whether it
  succeeds or not; \<open>os.Stat\<close> only reads and is not recorded. Which calls fail, and
  what a native command prints, is decided by \<open>fault\<close> and \<open>stdout\<close>, which may depend on
  everything attempted so far. Native commands leave the table of files alone.
\<close>

datatype node = RegularFile string nat | SymbolicLink string

datatype oscall =
    Create string
  | FileWrite string string
  | Chmod string nat
  | Symlink string string
  | Remove string
  | Command "string list"

record world =
  privileged :: bool
  files :: "string \<rightharpoonup> node"
  fault :: "oscall list \<Rightarrow> oscall \<Rightarrow> error option"
  stdout :: "oscall list \<Rightarrow> string list \<Rightarrow> string"
  executableOf :: "string \<Rightarrow> error + string"
  regexpOther :: "string \<Rightarrow> string \<Rightarrow> bool \<times> error option"
  trace :: "oscall list"

definition attempt :: "oscall \<Rightarrow> world \<Rightarrow> world" where
  "attempt c w = w\<lparr>trace := trace w @ [c]\<rparr>"

text \<open>\<open>os.Stat(p)\<close> returns a nil error exactly when \<open>p\<close> has an entry.\<close>

definition os_Stat :: "string \<Rightarrow> world \<Rightarrow> bool" where
  "os_Stat p w = (files w p \<noteq> None)"

text \<open>\<open>os.Create\<close>: create or truncate, mode 0666 for a new file.\<close>

definition os_Create :: "string \<Rightarrow> world \<Rightarrow> error option \<times> world" where
  "os_Create p w =
     (case fault w (trace w) (Create p) of
        Some e \<Rightarrow> (Some e, attempt (Create p) w)
      | None \<Rightarrow>
          (None, (attempt (Create p) w)
             \<lparr>files := (files w)(p \<mapsto> RegularFile []
                  (case files w p of Some (RegularFile c m) \<Rightarrow> m | _ \<Rightarrow> 438))\<rparr>))"

text \<open>Writing the whole rendered text to the file opened at \<open>p\<close>.\<close>

definition file_Write :: "string \<Rightarrow> string \<Rightarrow> world \<Rightarrow> error option \<times> world" where
  "file_Write p txt w =
     (case fault w (trace w) (FileWrite p txt) of
        Some e \<Rightarrow> (Some e, attempt (FileWrite p txt) w)
      | None \<Rightarrow>
          (case files w p of
             Some (RegularFile c m) \<Rightarrow>
               (None, (attempt (FileWrite p txt) w)\<lparr>files := (files w)(p \<mapsto> RegularFile txt m)\<rparr>)
           | _ \<Rightarrow> (Some (ErrOS ''bad file descriptor''), attempt (FileWrite p txt) w)))"

definition os_Chmod :: "string \<Rightarrow> nat \<Rightarrow> world \<Rightarrow> error option \<times> world" where
  "os_Chmod p m w =
     (case fault w (trace w) (Chmod p m) of
        Some e \<Rightarrow> (Some e, attempt (Chmod p m) w)
      | None \<Rightarrow>
          (case files w p of
             Some (RegularFile c m0) \<Rightarrow>
               (None, (attempt (Chmod p m) w)\<lparr>files := (files w)(p \<mapsto> RegularFile c m)\<rparr>)
           | Some (SymbolicLink t) \<Rightarrow> (None, attempt (Chmod p m) w)
           | None \<Rightarrow> (Some (ErrOS ''no such file or directory''), attempt (Chmod p m) w)))"

text \<open>\<open>os.Symlink(oldname, newname)\<close> fails when \<open>newname\<close> already exists.\<close>

definition os_Symlink :: "string \<Rightarrow> string \<Rightarrow> world \<Rightarrow> error option \<times> world" where
  "os_Symlink oldname newname w =
     (case fault w (trace w) (Symlink oldname newname) of
        Some e \<Rightarrow> (Some e, attempt (Symlink oldname newname) w)
      | None \<Rightarrow>
          (if files w newname \<noteq> None
           then (Some (ErrOS ''file exists''), attempt (Symlink oldname newname) w)
           else (None, (attempt (Symlink oldname newname) w)
                   \<lparr>files := (files w)(newname \<mapsto> SymbolicLink oldname)\<rparr>)))"

text \<open>\<open>os.Remove(p)\<close> fails when \<open>p\<close> has no entry.\<close>

definition os_Remove :: "string \<Rightarrow> world \<Rightarrow> error option \<times> world" where
  "os_Remove p w =
     (case fault w (trace w) (Remove p) of
        Some e \<Rightarrow> (Some e, attempt (Remove p) w)
      | None \<Rightarrow>
          (if files w p = None
           then (Some (ErrOS ''no such file or directory''), attempt (Remove p) w)
           else (None, (attempt (Remove p) w)\<lparr>files := (files w)(p := None)\<rparr>)))"

text \<open>\<open>exec.Command(args...).Run()\<close> and \<open>.Output()\<close>.\<close>

definition exec_Run :: "string list \<Rightarrow> world \<Rightarrow> error option \<times> world" where
  "exec_Run args w = (fault w (trace w) (Command args), attempt (Command args) w)"

definition exec_Output :: "string list \<Rightarrow> world \<Rightarrow> (string \<times> error option) \<times> world" where
  "exec_Output args w =
     ((stdout w (trace w) args, fault w (trace w) (Command args)), attempt (Command args) w)"

text \<open>
  Modelled from the spec: \<^verbatim>\<open>checkPrivileges\<close> is declared outside the files under
  verification. The spec's privilege guard fails with a PermissionDenied-class error when
  the calling process lacks the rights of the privileged account, and changes nothing.
\<close>

definition checkPrivileges :: "world \<Rightarrow> bool \<times> error option" where
  "checkPrivileges w = (if privileged w then (True, None) else (False, Some ErrPermissionDenied))"

text \<open>
  Modelled from the spec: \<^verbatim>\<open>executablePath\<close> is declared outside the files under
  verification. The spec treats the executable-path resolver as an opaque capability that
  returns the path of the running executable or fails; here it is a field of the world.
\<close>

definition executablePath :: "string \<Rightarrow> world \<Rightarrow> error + string" where
  "executablePath n w = executableOf w n"

section \<open>Strings and regular expressions\<close>

text \<open>\<open>strings.HasPrefix\<close> and \<open>strings.Contains\<close> on byte strings.\<close>

fun hasPrefix :: "string \<Rightarrow> string \<Rightarrow> bool" where
  "hasPrefix s [] = True"
| "hasPrefix [] (p # ps) = False"
| "hasPrefix (c # cs) (p # ps) = (c = p \<and> hasPrefix cs ps)"

fun contains :: "string \<Rightarrow> string \<Rightarrow> bool" where
  "contains [] sub = (sub = [])"
| "contains (c # cs) sub = (hasPrefix (c # cs) sub \<or> contains cs sub)"

text \<open>
  Go's \<open>regexp\<close> package, as far as the backends use it. The characters that
  \<open>regexp.QuoteMeta\<close> escapes are the only ones with a special meaning; every other
  character matches itself. The fragment written out here is: patterns of ASCII literal
  characters and the dot, which matches any character but a newline. A dot consumes
  one rune, which is one byte on ASCII input. Outside the fragment (other
  metacharacters, patterns that do not compile, non-ASCII text) the answer is whatever
  the library gives, the field \<open>regexpOther\<close> of the world.
\<close>

definition metachars :: string where
  "metachars = CHR 0x5C # ''.+*?()|[]{}^$''"

definition ascii :: "char \<Rightarrow> bool" where
  "ascii c = (\<not> digit7 c)"

fun matchHere :: "string \<Rightarrow> string \<Rightarrow> bool" where
  "matchHere [] s = True"
| "matchHere (p # ps) [] = False"
| "matchHere (p # ps) (c # cs) =
     ((if p = CHR ''.'' then c \<noteq> CHR 0x0A else c = p) \<and> matchHere ps cs)"

fun matchAnywhere :: "string \<Rightarrow> string \<Rightarrow> bool" where
  "matchAnywhere pat [] = matchHere pat []"
| "matchAnywhere pat (c # cs) = (matchHere pat (c # cs) \<or> matchAnywhere pat cs)"

definition inFragment :: "string \<Rightarrow> string \<Rightarrow> bool" where
  "inFragment pat s =
     (list_all (\<lambda>c. ascii c \<and> (c = CHR ''.'' \<or> c \<notin> set metachars)) pat
      \<and> (CHR ''.'' \<notin> set pat \<or> list_all ascii s))"

definition regexp_MatchString :: "world \<Rightarrow> string \<Rightarrow> string \<Rightarrow> bool \<times> error option" where
  "regexp_MatchString w pat s =
     (if inFragment pat s then (matchAnywhere pat s, None) else regexpOther w pat s)"

text \<open>
  \<open>regexp.MustCompile(lit + "([0-9]+)").FindStringSubmatch(s)\<close> for a literal
  \<open>lit\<close>: the leftmost place where \<open>lit\<close> is followed by a digit, with the longest run of
  digits there (the repetition is greedy). The result is the whole match and the group,
  or the empty slice when nothing matches.
\<close>

definition isDigit :: "char \<Rightarrow> bool" where
  "isDigit c = (c \<in> set ''0123456789'')"

definition submatchHere :: "string \<Rightarrow> string \<Rightarrow> string list option" where
  "submatchHere lit s =
     (if hasPrefix s lit
      then (let d = takeWhile isDigit (drop (length lit) s)
            in if d = [] then None else Some [lit @ d, d])
      else None)"

fun findDigitsSubmatch :: "string \<Rightarrow> string \<Rightarrow> string list" where
  "findDigitsSubmatch lit [] = (case submatchHere lit [] of Some r \<Rightarrow> r | None \<Rightarrow> [])"
| "findDigitsSubmatch lit (c # cs) =
     (case submatchHere lit (c # cs) of Some r \<Rightarrow> r | None \<Rightarrow> findDigitsSubmatch lit cs)"

section \<open>Templates\<close>

text \<open>
  Go's \<open>text/template\<close>, as far as the two templates of the package use it. A template
  is text with actions between \<open>{{\<close> and \<open>}}\<close>; the only action written out here is the
  field action \<open>{{.Name}}\<close>, a dot followed by letters, digits and underscores. Any other
  action is outside the fragment and reported as a parse error, as is an action that is
  never closed. \<open>lexText\<close> collects text up to the next \<open>{{\<close>, \<open>lexInsideAction\<close> the
  action up to the next \<open>}}\<close>; both keep what they have read in reverse.
\<close>

datatype piece = Text string | Field string

fun revOnto :: "'a list \<Rightarrow> 'a list \<Rightarrow> 'a list" where
  "revOnto [] ys = ys"
| "revOnto (x # xs) ys = revOnto xs (x # ys)"

definition isAlphaNumeric :: "char \<Rightarrow> bool" where
  "isAlphaNumeric c =
     (c \<in> set ''_abcdefghijklmnopqrstuvwxyzABCDEFGHIJKLMNOPQRSTUVWXYZ0123456789'')"

definition fieldOf :: "string \<Rightarrow> string option" where
  "fieldOf act =
     (case act of
        [] \<Rightarrow> None
      | c # f \<Rightarrow>
          if c = CHR ''.'' \<and> f \<noteq> [] \<and> list_all isAlphaNumeric f then Some f else None)"

definition emit :: "string \<Rightarrow> piece list \<Rightarrow> piece list" where
  "emit txt ps = (if txt = [] then ps else Text (revOnto txt []) # ps)"

fun lexText :: "piece list \<Rightarrow> string \<Rightarrow> string \<Rightarrow> error + piece list"
and lexInsideAction :: "piece list \<Rightarrow> string \<Rightarrow> string \<Rightarrow> error + piece list" where
  "lexText ps txt [] = Inr (revOnto (emit txt ps) [])"
| "lexText ps txt (c # cs) =
     (if hasPrefix (c # cs) ''{{''
      then lexInsideAction (emit txt ps) [] (drop 2 (c # cs))
      else lexText ps (c # txt) cs)"
| "lexInsideAction ps act [] = Inl (ErrOS ''template: unclosed action'')"
| "lexInsideAction ps act (c # cs) =
     (if hasPrefix (c # cs) ''}}''
      then (case fieldOf (revOnto act []) of
              None \<Rightarrow> Inl (ErrOS ''template: action outside the fragment'')
            | Some f \<Rightarrow> lexText (Field f # ps) [] (drop 2 (c # cs)))
      else lexInsideAction ps (c # act) cs)"

definition template_Parse :: "string \<Rightarrow> error + piece list" where
  "template_Parse src = lexText [] [] src"

text \<open>
  Executing a template against a struct of string fields, here a map from field names
  to values. Text is copied, a field action is replaced by the value of the field, and a
  field the struct does not have stops the execution with an error; what was rendered
  before that point has already been written. \<open>render\<close> gives the text written and the
  error, if any.
\<close>

fun render :: "piece list \<Rightarrow> (string \<rightharpoonup> string) \<Rightarrow> string \<times> error option" where
  "render [] data = ([], None)"
| "render (Text t # ps) data = (case render ps data of (out, err) \<Rightarrow> (t @ out, err))"
| "render (Field f # ps) data =
     (case data f of
        None \<Rightarrow> ([], Some (ErrOS (''template: no field '' @ f)))
      | Some v \<Rightarrow> (case render ps data of (out, err) \<Rightarrow> (v @ out, err)))"

text \<open>
  \<open>templ.Execute(file, data)\<close> with \<open>file\<close> opened at \<open>p\<close>. The writes of one execution
  are taken together as one write of everything rendered; a failed write is the error of
  the execution.
\<close>

definition template_Execute ::
  "piece list \<Rightarrow> string \<Rightarrow> (string \<rightharpoonup> string) \<Rightarrow> world \<Rightarrow> error option \<times> world" where
  "template_Execute templ p data w =
     (case render templ data of
        (txt, rerr) \<Rightarrow>
          (case file_Write p txt w of
             (Some e, w1) \<Rightarrow> (Some e, w1)
           | (None, w1) \<Rightarrow> (rerr, w1)))"

text \<open>\<open>strings.Join(elems, sep)\<close>.\<close>

fun strings_Join :: "string list \<Rightarrow> string \<Rightarrow> string" where
  "strings_Join [] sep = []"
| "strings_Join [x] sep = x"
| "strings_Join (x # y # ys) sep = x @ sep @ strings_Join (y # ys) sep"

section \<open>The systemd backend\<close>

text \<open>The unit file template, \<^verbatim>\<open>systemDConfig\<close>.\<close>

definition systemDConfig :: string where
  \<open>systemDConfig =
     ''[Unit]\<newline>''
   @ ''Description={{.Description}}\<newline>''
   @ ''Requires={{.Dependencies}}\<newline>''
   @ ''After={{.Dependencies}}\<newline>''
   @ ''\<newline>''
   @ ''[Service]\<newline>''
   @ ''PIDFile=/var/run/{{.Name}}.pid\<newline>''
   @ ''ExecStartPre=/bin/rm -f /var/run/{{.Name}}.pid\<newline>''
   @ ''ExecStart={{.Path}}\<newline>''
   @ ''Restart=on-abort\<newline>''
   @ ''Port={{.Port}}\<newline>''
   @ ''Version={{.Version}}\<newline>''
   @ ''\<newline>''
   @ ''[Install]\<newline>''
   @ ''WantedBy=multi-user.target\<newline>''\<close>

definition systemD_servicePath :: "serviceRecord \<Rightarrow> string" where
  "systemD_servicePath linux = ''/etc/systemd/system/'' @ name linux @ ''.service''"

definition systemD_isInstalled :: "serviceRecord \<Rightarrow> world \<Rightarrow> bool" where
  "systemD_isInstalled linux w = os_Stat (systemD_servicePath linux) w"

definition systemD_checkRunning :: "serviceRecord \<Rightarrow> world \<Rightarrow> (string \<times> bool) \<times> world" where
  "systemD_checkRunning linux w =
     (case exec_Output [''systemctl'', ''status'', name linux @ ''.service''] w of
        ((output, err), w1) \<Rightarrow>
          (let stopped = ((''Service '' @ name linux @ '' is stopped'', False), w1)
           in if err = None
              then (case regexp_MatchString w1 ''Active: active'' output of
                      (matched, err2) \<Rightarrow>
                        if err2 = None \<and> matched
                        then (let data = findDigitsSubmatch ''Main PID: '' output
                              in if length data > 1
                                 then ((''Service '' @ name linux @ '' (pid  '' @ data ! 1
                                          @ '') is running...'', True), w1)
                                 else ((''Service '' @ name linux @ '' is running...'', True), w1))
                        else stopped)
              else stopped))"

text \<open>
  Every method returns its message and its error, and the operating system as the call
  left it. The deferred \<open>file.Close()\<close> of \<open>Install\<close> changes nothing that is modelled.
\<close>

definition systemD_Install ::
  "markers \<Rightarrow> serviceRecord \<Rightarrow> string list \<Rightarrow> world \<Rightarrow> (string \<times> error option) \<times> world" where
  "systemD_Install m linux args w =
     (let installAction = ''Install '' @ description linux @ '':'';
          srvPath = systemD_servicePath linux
      in case checkPrivileges w of
           (ok, err) \<Rightarrow>
             if \<not> ok then ((installAction @ failed m, err), w)
             else if systemD_isInstalled linux w
             then ((installAction @ failed m, Some ErrAlreadyInstalled), w)
             else
               (case os_Create srvPath w of
                  (Some e, w1) \<Rightarrow> ((installAction @ failed m, Some e), w1)
                | (None, w1) \<Rightarrow>
                    (case executablePath (name linux) w1 of
                       Inl e \<Rightarrow> ((installAction @ failed m, Some e), w1)
                     | Inr execPatch \<Rightarrow>
                         (case template_Parse systemDConfig of
                            Inl e \<Rightarrow> ((installAction @ failed m, Some e), w1)
                          | Inr templ \<Rightarrow>
                              (let path = execPatch # args
                               in case template_Execute templ srvPath
                                         (map_of
                                            [(''Name'', name linux),
                                             (''Port'', port linux),
                                             (''Version'', version linux),
                                             (''Description'', description linux),
                                             (''Dependencies'', strings_Join (dependencies linux) '' ''),
                                             (''Path'', strings_Join path '' '')]) w1 of
                                    (Some e, w2) \<Rightarrow> ((installAction @ failed m, Some e), w2)
                                  | (None, w2) \<Rightarrow>
                                      (case exec_Run [''systemctl'', ''daemon-reload''] w2 of
                                         (Some e, w3) \<Rightarrow> ((installAction @ failed m, Some e), w3)
                                       | (None, w3) \<Rightarrow>
                                           (case exec_Run [''systemctl'', ''enable'',
                                                           name linux @ ''.service''] w3 of
                                              (Some e, w4) \<Rightarrow>
                                                ((installAction @ failed m, Some e), w4)
                                            | (None, w4) \<Rightarrow>
                                                ((installAction @ success m, None), w4))))))))"

definition systemD_Remove ::
  "markers \<Rightarrow> serviceRecord \<Rightarrow> world \<Rightarrow> (string \<times> error option) \<times> world" where
  "systemD_Remove m linux w =
     (let removeAction = ''Removing '' @ description linux @ '':''
      in case checkPrivileges w of
           (ok, err) \<Rightarrow>
             if \<not> ok then ((removeAction @ failed m, err), w)
             else if \<not> systemD_isInstalled linux w
             then ((removeAction @ failed m, Some ErrNotInstalled), w)
             else
               (case exec_Run [''systemctl'', ''disable'', name linux @ ''.service''] w of
                  (Some e, w1) \<Rightarrow> ((removeAction @ failed m, Some e), w1)
                | (None, w1) \<Rightarrow>
                    (case os_Remove (systemD_servicePath linux) w1 of
                       (Some e, w2) \<Rightarrow> ((removeAction @ failed m, Some e), w2)
                     | (None, w2) \<Rightarrow> ((removeAction @ success m, None), w2))))"

definition systemD_Start ::
  "markers \<Rightarrow> serviceRecord \<Rightarrow> world \<Rightarrow> (string \<times> error option) \<times> world" where
  "systemD_Start m linux w =
     (let startAction = ''Starting '' @ description linux @ '':''
      in case checkPrivileges w of
           (ok, err) \<Rightarrow>
             if \<not> ok then ((startAction @ failed m, err), w)
             else if \<not> systemD_isInstalled linux w
             then ((startAction @ failed m, Some ErrNotInstalled), w)
             else
               (case systemD_checkRunning linux w of
                  ((status, running), w1) \<Rightarrow>
                    if running then ((startAction @ failed m, Some ErrAlreadyRunning), w1)
                    else
                      (case exec_Run [''systemctl'', ''start'', name linux @ ''.service''] w1 of
                         (Some e, w2) \<Rightarrow> ((startAction @ failed m, Some e), w2)
                       | (None, w2) \<Rightarrow> ((startAction @ success m, None), w2))))"

definition systemD_Stop ::
  "markers \<Rightarrow> serviceRecord \<Rightarrow> world \<Rightarrow> (string \<times> error option) \<times> world" where
  "systemD_Stop m linux w =
     (let stopAction = ''Stopping '' @ description linux @ '':''
      in case checkPrivileges w of
           (ok, err) \<Rightarrow>
             if \<not> ok then ((stopAction @ failed m, err), w)
             else if \<not> systemD_isInstalled linux w
             then ((stopAction @ failed m, Some ErrNotInstalled), w)
             else
               (case systemD_checkRunning linux w of
                  ((status, running), w1) \<Rightarrow>
                    if \<not> running then ((stopAction @ failed m, Some ErrAlreadyStopped), w1)
                    else
                      (case exec_Run [''systemctl'', ''stop'', name linux @ ''.service''] w1 of
                         (Some e, w2) \<Rightarrow> ((stopAction @ failed m, Some e), w2)
                       | (None, w2) \<Rightarrow> ((stopAction @ success m, None), w2))))"

definition systemD_Status :: "serviceRecord \<Rightarrow> world \<Rightarrow> (string \<times> error option) \<times> world" where
  "systemD_Status linux w =
     (case checkPrivileges w of
        (ok, err) \<Rightarrow>
          if \<not> ok then (([], err), w)
          else if \<not> systemD_isInstalled linux w
          then ((''Status could not defined'', Some ErrNotInstalled), w)
          else
            (case systemD_checkRunning linux w of
               ((statusAction, running), w1) \<Rightarrow> ((statusAction, None), w1)))"

definition systemD_ExecPath ::
  "serviceRecord \<Rightarrow> string \<Rightarrow> world \<Rightarrow> (string \<times> error option) \<times> world" where
  "systemD_ExecPath linux serviceName w =
     (case checkPrivileges w of
        (ok, err) \<Rightarrow>
          if \<not> ok then (([], err), w)
          else if \<not> systemD_isInstalled linux w then (([], Some ErrNotInstalled), w)
          else
            (let serviceName' = (if serviceName = [] then name linux else serviceName)
             in exec_Output [''systemctl'', ''execpath'', serviceName' @ ''.service''] w))"

definition systemD_Restart ::
  "markers \<Rightarrow> serviceRecord \<Rightarrow> world \<Rightarrow> (string \<times> error option) \<times> world" where
  "systemD_Restart m linux w =
     (let startAction = ''Restarting '' @ description linux @ '':''
      in case checkPrivileges w of
           (ok, err) \<Rightarrow>
             if \<not> ok then ((startAction @ failed m, err), w)
             else if \<not> systemD_isInstalled linux w
             then ((startAction @ failed m, Some ErrNotInstalled), w)
             else
               (case exec_Run [''systemctl'', ''restart'', name linux @ ''.service''] w of
                  (Some e, w1) \<Rightarrow> ((startAction @ failed m, Some e), w1)
                | (None, w1) \<Rightarrow> ((startAction @ success m, None), w1)))"

section \<open>The init-script backend\<close>

text \<open>The init script template, \<^verbatim>\<open>systemVConfig\<close>.\<close>

definition systemVConfig :: string where
  \<open>systemVConfig =
     ''#! /bin/sh\<newline>''
   @ ''#\<newline>''
   @ ''#       /etc/rc.d/init.d/{{.Name}}\<newline>''
   @ ''#\<newline>''
   @ ''#       Starts {{.Name}} as a daemon\<newline>''
   @ ''#\<newline>''
   @ ''# chkconfig: 2345 87 17\<newline>''
   @ ''# description: Starts and stops a single {{.Name}} instance on this system\<newline>''
   @ ''\<newline>''
   @ ''### BEGIN INIT INFO\<newline>''
   @ ''# Provides: {{.Name}} \<newline>''
   @ ''# Required-Start: $network $named\<newline>''
   @ ''# Required-Stop: $network $named\<newline>''
   @ ''# Default-Start: 2 3 4 5\<newline>''
   @ ''# Default-Stop: 0 1 6\<newline>''
   @ ''# Short-Description: This service manages the {{.Description}}.\<newline>''
   @ ''# Description: {{.Description}}\<newline>''
   @ ''### END INIT INFO\<newline>''
   @ ''\<newline>''
   @ ''#\<newline>''
   @ ''# Source function library.\<newline>''
   @ ''#\<newline>''
   @ ''if [ -f /etc/rc.d/init.d/functions ]; then\<newline>''
   @ ''    . /etc/rc.d/init.d/functions\<newline>''
   @ ''fi\<newline>''
   @ ''\<newline>''
   @ ''exec="{{.Path}}"\<newline>''
   @ ''servname="{{.Description}}"\<newline>''
   @ ''port="{{.Port}}"\<newline>''
   @ ''version="{{.Version}}"\<newline>''
   @ ''\<newline>''
   @ ''proc="{{.Name}}"\<newline>''
   @ ''pidfile="/var/run/$proc.pid"\<newline>''
   @ ''lockfile="/var/lock/subsys/$proc"\<newline>''
   @ ''stdoutlog="/var/log/$proc.log"\<newline>''
   @ ''stderrlog="/var/log/$proc.err"\<newline>''
   @ ''\<newline>''
   @ ''privilegeCheck() {\<newline>''
   @ ''    testFile="/var/tmp/${proc}_testPriv.t"\<newline>''
   @ ''    touch $testFile\<newline>''
   @ ''    chown root:root $testFile 2>/dev/null\<newline>''
   @ ''    if [ $? != 0 ]; then\<newline>''
   @ ''        rm -f $testFile\<newline>''
   @ ''        echo "Error:  You must have root user privileges. Possibly using '' @ [CHR 0x27] @ ''sudo'' @ [CHR 0x27] @ '' command should help"\<newline>''
   @ ''        exit 1\<newline>''
   @ ''    fi\<newline>''
   @ ''    rm -f $testFile\<newline>''
   @ ''    if [ $? != 0 ]; then\<newline>''
   @ ''        echo "Error:  You must have root user privileges. Possibly using '' @ [CHR 0x27] @ ''sudo'' @ [CHR 0x27] @ '' command should help"\<newline>''
   @ ''        exit 1\<newline>''
   @ ''    fi\<newline>''
   @ ''}\<newline>''
   @ ''\<newline>''
   @ ''# root or sudo command\<newline>''
   @ ''privilegeCheck\<newline>''
   @ ''\<newline>''
   @ ''[ -d $(dirname $lockfile) ] || mkdir -p $(dirname $lockfile)\<newline>''
   @ ''\<newline>''
   @ ''[ -e /etc/sysconfig/$proc ] && . /etc/sysconfig/$proc\<newline>''
   @ ''\<newline>''
   @ ''start() {\<newline>''
   @ ''    [ -x $exec ] || exit 5\<newline>''
   @ ''\<newline>''
   @ ''    if [ -f $pidfile ]; then\<newline>''
   @ ''        if ! [ -d "/proc/$(cat $pidfile)" ]; then\<newline>''
   @ ''            rm $pidfile\<newline>''
   @ ''            if [ -f $lockfile ]; then\<newline>''
   @ ''                rm $lockfile\<newline>''
   @ ''            fi\<newline>''
   @ ''        fi\<newline>''
   @ ''    fi\<newline>''
   @ ''\<newline>''
   @ ''    if ! [ -f $pidfile ]; then\<newline>''
   @ ''        printf "Starting $servname:'' @ [CHR 0x5C] @ ''t"\<newline>''
   @ ''        if [ $? != 0 ]; then\<newline>''
   @ ''            echo -n "Starting $servname:     "\<newline>''
   @ ''        fi\<newline>''
   @ ''        echo "$(date)" >> $stdoutlog\<newline>''
   @ ''        $exec {{.Args}} >> $stdoutlog 2>> $stderrlog &\<newline>''
   @ ''        echo $! > $pidfile\<newline>''
   @ ''        touch $lockfile\<newline>''
   @ ''        success 2>/dev/null\<newline>''
   @ ''        if [ $? != 0 ]; then\<newline>''
   @ ''            echo "[ OK ]"\<newline>''
   @ ''        else\<newline>''
   @ ''            echo\<newline>''
   @ ''        fi\<newline>''
   @ ''    else\<newline>''
   @ ''        # failure\<newline>''
   @ ''        echo\<newline>''
   @ ''        printf "$pidfile still exists...'' @ [CHR 0x5C] @ ''n"\<newline>''
   @ ''        if [ $? != 0 ]; then\<newline>''
   @ ''            echo "$pidfile still exists..."\<newline>''
   @ ''        fi\<newline>''
   @ ''        exit 7\<newline>''
   @ ''    fi\<newline>''
   @ ''}\<newline>''
   @ ''\<newline>''
   @ ''stop() {\<newline>''
   @ ''    printf "Stopping $servname:'' @ [CHR 0x5C] @ ''t"\<newline>''
   @ ''    if [ $? != 0 ]; then\<newline>''
   @ ''        echo -n "Stopping $servname:     "\<newline>''
   @ ''    fi\<newline>''
   @ ''    kill -9 $(cat $pidfile) && rm -f $pidfile\<newline>''
   @ ''    retval=$?\<newline>''
   @ ''    [ $retval -eq 0 ] && rm -f $lockfile\<newline>''
   @ ''    if [ $? != 0 ]; then\<newline>''
   @ ''        failure 2>/dev/null\<newline>''
   @ ''        if [ $? != 0 ]; then\<newline>''
   @ ''            echo "[ FAILED ]"\<newline>''
   @ ''        else\<newline>''
   @ ''            echo\<newline>''
   @ ''        fi\<newline>''
   @ ''    else\<newline>''
   @ ''        success 2>/dev/null\<newline>''
   @ ''        if [ $? != 0 ]; then\<newline>''
   @ ''            echo "[ OK ]"\<newline>''
   @ ''        else\<newline>''
   @ ''            echo\<newline>''
   @ ''        fi\<newline>''
   @ ''    fi\<newline>''
   @ ''    return $retval\<newline>''
   @ ''}\<newline>''
   @ ''\<newline>''
   @ ''clear() {\<newline>''
   @ ''    rm -f $pidfile\<newline>''
   @ ''    rm -f $lockfile\<newline>''
   @ ''}\<newline>''
   @ ''\<newline>''
   @ ''restart() {\<newline>''
   @ ''    stop >/dev/null 2>/dev/null\<newline>''
   @ ''    start\<newline>''
   @ ''}\<newline>''
   @ ''\<newline>''
   @ ''rh_status() {\<newline>''
   @ ''        pidCmd=$(lsof -i${port} | awk '' @ [CHR 0x27] @ ''{print $2;}'' @ [CHR 0x27] @ '' | sed -n 2p)\<newline>''
   @ ''        if [ ! -f "$pidfile" ] && [ -z "$pidCmd" ]; then\<newline>''
   @ ''            echo "$servname is stopped";\<newline>''
   @ ''            return 1;\<newline>''
   @ ''        fi\<newline>''
   @ ''        pid=$(cat $pidfile);\<newline>''
   @ ''        if [ "$pidCmd" != "$pid" ]; then\<newline>''
   @ ''            if [ ! -z "$pid" ]; then\<newline>''
   @ ''                kill -9 $pid\<newline>''
   @ ''            fi\<newline>''
   @ ''            if [ ! -z "$pidCmd" ]; then\<newline>''
   @ ''                echo "$pidCmd" > "$pidfile";\<newline>''
   @ ''                touch $lockfile\<newline>''
   @ ''                echo "$servname is running [pid  $(cat $pidfile)]";\<newline>''
   @ ''                return 0;\<newline>''
   @ ''            fi\<newline>''
   @ ''            clear\<newline>''
   @ ''            echo "$servname is stopped";\<newline>''
   @ ''            return 1;\<newline>''
   @ ''        fi\<newline>''
   @ ''        echo "$servname is running [pid  $pid]";\<newline>''
   @ ''        return 0;\<newline>''
   @ ''}\<newline>''
   @ ''\<newline>''
   @ ''rh_status_q() {\<newline>''
   @ ''    rh_status >/dev/null 2>&1\<newline>''
   @ ''}\<newline>''
   @ ''\<newline>''
   @ ''case "$1" in\<newline>''
   @ ''    start)\<newline>''
   @ ''        rh_status_q && exit 0\<newline>''
   @ ''        $1\<newline>''
   @ ''        ;;\<newline>''
   @ ''    stop)\<newline>''
   @ ''        rh_status_q || exit 0\<newline>''
   @ ''        $1\<newline>''
   @ ''        ;;\<newline>''
   @ ''    restart)\<newline>''
   @ ''        $1\<newline>''
   @ ''        ;;\<newline>''
   @ ''    status)\<newline>''
   @ ''        rh_status\<newline>''
   @ ''        ;;\<newline>''
   @ ''    version)\<newline>''
   @ ''        echo $version\<newline>''
   @ ''        ;;\<newline>''
   @ ''    description)\<newline>''
   @ ''        echo $servname\<newline>''
   @ ''        ;;\<newline>''
   @ ''    execpath)\<newline>''
   @ ''        echo $exec\<newline>''
   @ ''        ;;\<newline>''
   @ ''    *)\<newline>''
   @ ''        echo "Usage: $0 {start|stop|status|restart|version|description|execpath}"\<newline>''
   @ ''        exit 2\<newline>''
   @ ''esac\<newline>''
   @ ''\<newline>''
   @ ''exit $?\<newline>''\<close>

definition systemV_servicePath :: "serviceRecord \<Rightarrow> string" where
  "systemV_servicePath linux = ''/etc/init.d/'' @ name linux"

definition systemV_isInstalled :: "serviceRecord \<Rightarrow> world \<Rightarrow> bool" where
  "systemV_isInstalled linux w = os_Stat (systemV_servicePath linux) w"

text \<open>The service name is handed to \<open>regexp.MatchString\<close> as the pattern, as it is.\<close>

definition systemV_checkRunning :: "serviceRecord \<Rightarrow> world \<Rightarrow> (string \<times> bool) \<times> world" where
  "systemV_checkRunning linux w =
     (case exec_Output [''service'', name linux, ''status''] w of
        ((output, err), w1) \<Rightarrow>
          (let stopped = ((''Service '' @ name linux @ '' is stopped'', False), w1)
           in if err = None
              then (case regexp_MatchString w1 ''running'' output of
                      (matched, err2) \<Rightarrow>
                        if err2 = None \<and> matched
                        then (case regexp_MatchString w1 (name linux) output of
                                (matched3, err3) \<Rightarrow>
                                  if err3 = None \<and> matched3
                                  then (let data = findDigitsSubmatch ''pid  '' output
                                        in if length data > 1
                                           then ((''Service '' @ name linux @ '' (pid  ''
                                                    @ data ! 1 @ '') is running...'', True), w1)
                                           else ((''Service '' @ name linux
                                                    @ '' is running...'', True), w1))
                                  else stopped)
                        else stopped)
              else stopped))"

text \<open>
  The two loops of \<open>Install\<close> and of \<open>Remove\<close> go on to the next runlevel whether the call
  failed or not, so each is a fold that keeps the operating system and drops the error.
  Mode \<open>0755\<close> is 493.
\<close>

definition systemV_Install ::
  "markers \<Rightarrow> serviceRecord \<Rightarrow> string list \<Rightarrow> world \<Rightarrow> (string \<times> error option) \<times> world" where
  "systemV_Install m linux args w =
     (let installAction = ''Install '' @ description linux @ '':'';
          srvPath = systemV_servicePath linux
      in case checkPrivileges w of
           (ok, err) \<Rightarrow>
             if \<not> ok then ((installAction @ failed m, err), w)
             else if systemV_isInstalled linux w
             then ((installAction @ failed m, Some ErrAlreadyInstalled), w)
             else
               (case os_Create srvPath w of
                  (Some e, w1) \<Rightarrow> ((installAction @ failed m, Some e), w1)
                | (None, w1) \<Rightarrow>
                    (case executablePath (name linux) w1 of
                       Inl e \<Rightarrow> ((installAction @ failed m, Some e), w1)
                     | Inr execPatch \<Rightarrow>
                         (case template_Parse systemVConfig of
                            Inl e \<Rightarrow> ((installAction @ failed m, Some e), w1)
                          | Inr templ \<Rightarrow>
                              (case template_Execute templ srvPath
                                      (map_of
                                         [(''Name'', name linux),
                                          (''Port'', port linux),
                                          (''Version'', version linux),
                                          (''Description'', description linux),
                                          (''Path'', execPatch),
                                          (''Args'', strings_Join args '' '')]) w1 of
                                 (Some e, w2) \<Rightarrow> ((installAction @ failed m, Some e), w2)
                               | (None, w2) \<Rightarrow>
                                   (case os_Chmod srvPath 493 w2 of
                                      (Some e, w3) \<Rightarrow> ((installAction @ failed m, Some e), w3)
                                    | (None, w3) \<Rightarrow>
                                        (let w4 = foldl (\<lambda>v i. snd (os_Symlink srvPath
                                                      (''/etc/rc'' @ i @ ''.d/S87'' @ name linux) v))
                                                    w3 [''2'', ''3'', ''4'', ''5''];
                                             w5 = foldl (\<lambda>v i. snd (os_Symlink srvPath
                                                      (''/etc/rc'' @ i @ ''.d/K17'' @ name linux) v))
                                                    w4 [''0'', ''1'', ''6'']
                                         in ((installAction @ success m, None), w5))))))))"

definition systemV_Remove ::
  "markers \<Rightarrow> serviceRecord \<Rightarrow> world \<Rightarrow> (string \<times> error option) \<times> world" where
  "systemV_Remove m linux w =
     (let removeAction = ''Removing '' @ description linux @ '':''
      in case checkPrivileges w of
           (ok, err) \<Rightarrow>
             if \<not> ok then ((removeAction @ failed m, err), w)
             else if \<not> systemV_isInstalled linux w
             then ((removeAction @ failed m, Some ErrNotInstalled), w)
             else
               (case os_Remove (systemV_servicePath linux) w of
                  (Some e, w1) \<Rightarrow> ((removeAction @ failed m, Some e), w1)
                | (None, w1) \<Rightarrow>
                    (let w2 = foldl (\<lambda>v i. snd (os_Remove
                                  (''/etc/rc'' @ i @ ''.d/S87'' @ name linux) v))
                                w1 [''2'', ''3'', ''4'', ''5''];
                         w3 = foldl (\<lambda>v i. snd (os_Remove
                                  (''/etc/rc'' @ i @ ''.d/K17'' @ name linux) v))
                                w2 [''0'', ''1'', ''6'']
                     in ((removeAction @ success m, None), w3))))"

definition systemV_Start ::
  "markers \<Rightarrow> serviceRecord \<Rightarrow> world \<Rightarrow> (string \<times> error option) \<times> world" where
  "systemV_Start m linux w =
     (let startAction = ''Starting '' @ description linux @ '':''
      in case checkPrivileges w of
           (ok, err) \<Rightarrow>
             if \<not> ok then ((startAction @ failed m, err), w)
             else if \<not> systemV_isInstalled linux w
             then ((startAction @ failed m, Some ErrNotInstalled), w)
             else
               (case systemV_checkRunning linux w of
                  ((status, running), w1) \<Rightarrow>
                    if running then ((startAction @ failed m, Some ErrAlreadyRunning), w1)
                    else
                      (case exec_Run [''service'', name linux, ''start''] w1 of
                         (Some e, w2) \<Rightarrow> ((startAction @ failed m, Some e), w2)
                       | (None, w2) \<Rightarrow> ((startAction @ success m, None), w2))))"

definition systemV_Stop ::
  "markers \<Rightarrow> serviceRecord \<Rightarrow> world \<Rightarrow> (string \<times> error option) \<times> world" where
  "systemV_Stop m linux w =
     (let stopAction = ''Stopping '' @ description linux @ '':''
      in case checkPrivileges w of
           (ok, err) \<Rightarrow>
             if \<not> ok then ((stopAction @ failed m, err), w)
             else if \<not> systemV_isInstalled linux w
             then ((stopAction @ failed m, Some ErrNotInstalled), w)
             else
               (case systemV_checkRunning linux w of
                  ((status, running), w1) \<Rightarrow>
                    if \<not> running then ((stopAction @ failed m, Some ErrAlreadyStopped), w1)
                    else
                      (case exec_Run [''service'', name linux, ''stop''] w1 of
                         (Some e, w2) \<Rightarrow> ((stopAction @ failed m, Some e), w2)
                       | (None, w2) \<Rightarrow> ((stopAction @ success m, None), w2))))"

definition systemV_Status :: "serviceRecord \<Rightarrow> world \<Rightarrow> (string \<times> error option) \<times> world" where
  "systemV_Status linux w =
     (case checkPrivileges w of
        (ok, err) \<Rightarrow>
          if \<not> ok then (([], err), w)
          else if \<not> systemV_isInstalled linux w
          then ((''Status could not defined'', Some ErrNotInstalled), w)
          else
            (case systemV_checkRunning linux w of
               ((statusAction, running), w1) \<Rightarrow> ((statusAction, None), w1)))"

definition systemV_ExecPath ::
  "serviceRecord \<Rightarrow> string \<Rightarrow> world \<Rightarrow> (string \<times> error option) \<times> world" where
  "systemV_ExecPath linux serviceName w =
     (case checkPrivileges w of
        (ok, err) \<Rightarrow>
          if \<not> ok then (([], err), w)
          else if \<not> systemV_isInstalled linux w then (([], Some ErrNotInstalled), w)
          else
            (let serviceName' = (if serviceName = [] then name linux else serviceName)
             in exec_Output [''service'', serviceName', ''execpath''] w))"

definition systemV_Restart ::
  "markers \<Rightarrow> serviceRecord \<Rightarrow> world \<Rightarrow> (string \<times> error option) \<times> world" where
  "systemV_Restart m linux w =
     (let startAction = ''Restarting '' @ description linux @ '':''
      in case checkPrivileges w of
           (ok, err) \<Rightarrow>
             if \<not> ok then ((startAction @ failed m, err), w)
             else if \<not> systemV_isInstalled linux w
             then ((startAction @ failed m, Some ErrNotInstalled), w)
             else
               (case exec_Run [''service'', name linux, ''restart''] w of
                  (Some e, w1) \<Rightarrow> ((startAction @ failed m, Some e), w1)
                | (None, w1) \<Rightarrow> ((startAction @ success m, None), w1)))"

section \<open>Construction of a backend and method calls\<close>

text \<open>
  \<^verbatim>\<open>newDaemon\<close> returns one of the two records behind the \<^verbatim>\<open>Daemon\<close> interface; a
  method call on the interface value goes to the method of the record it holds.
\<close>

datatype daemon = SystemD serviceRecord | SystemV serviceRecord

definition newDaemon ::
  "string \<Rightarrow> string \<Rightarrow> string \<Rightarrow> string \<Rightarrow> string list \<Rightarrow> world \<Rightarrow> daemon \<times> error option" where
  "newDaemon n p v d deps w =
     (if os_Stat ''/run/systemd/system'' w
      then (SystemD \<lparr>name = n, port = p, version = v, description = d, dependencies = deps\<rparr>,
            None)
      else (SystemV \<lparr>name = n, port = p, version = v, description = d, dependencies = deps\<rparr>,
            None))"

datatype call =
    InstallCall "string list"
  | RemoveCall
  | StartCall
  | StopCall
  | RestartCall
  | StatusCall
  | ExecPathCall string

fun invoke :: "markers \<Rightarrow> daemon \<Rightarrow> call \<Rightarrow> world \<Rightarrow> (string \<times> error option) \<times> world" where
  "invoke m (SystemD linux) (InstallCall args) w = systemD_Install m linux args w"
| "invoke m (SystemD linux) RemoveCall w = systemD_Remove m linux w"
| "invoke m (SystemD linux) StartCall w = systemD_Start m linux w"
| "invoke m (SystemD linux) StopCall w = systemD_Stop m linux w"
| "invoke m (SystemD linux) RestartCall w = systemD_Restart m linux w"
| "invoke m (SystemD linux) StatusCall w = systemD_Status linux w"
| "invoke m (SystemD linux) (ExecPathCall serviceName) w = systemD_ExecPath linux serviceName w"
| "invoke m (SystemV linux) (InstallCall args) w = systemV_Install m linux args w"
| "invoke m (SystemV linux) RemoveCall w = systemV_Remove m linux w"
| "invoke m (SystemV linux) StartCall w = systemV_Start m linux w"
| "invoke m (SystemV linux) StopCall w = systemV_Stop m linux w"
| "invoke m (SystemV linux) RestartCall w = systemV_Restart m linux w"
| "invoke m (SystemV linux) StatusCall w = systemV_Status linux w"
| "invoke m (SystemV linux) (ExecPathCall serviceName) w = systemV_ExecPath linux serviceName w"

fun descriptor :: "daemon \<Rightarrow> serviceRecord" where
  "descriptor (SystemD linux) = linux"
| "descriptor (SystemV linux) = linux"

fun servicePath :: "daemon \<Rightarrow> string" where
  "servicePath (SystemD linux) = systemD_servicePath linux"
| "servicePath (SystemV linux) = systemV_servicePath linux"

fun isInstalled :: "daemon \<Rightarrow> world \<Rightarrow> bool" where
  "isInstalled (SystemD linux) w = systemD_isInstalled linux w"
| "isInstalled (SystemV linux) w = systemV_isInstalled linux w"

fun checkRunning :: "daemon \<Rightarrow> world \<Rightarrow> (string \<times> bool) \<times> world" where
  "checkRunning (SystemD linux) w = systemD_checkRunning linux w"
| "checkRunning (SystemV linux) w = systemV_checkRunning linux w"

text \<open>The command line \<open>ExecPath\<close> runs for a service name.\<close>

fun execPathCommand :: "daemon \<Rightarrow> string \<Rightarrow> string list" where
  "execPathCommand (SystemD linux) n = [''systemctl'', ''execpath'', n @ ''.service'']"
| "execPathCommand (SystemV linux) n = [''service'', n, ''execpath'']"

text \<open>
  The five methods that build their message from an action prefix, with the prefix each
  one uses.
\<close>

fun actionPrefix :: "call \<Rightarrow> string option" where
  "actionPrefix (InstallCall args) = Some ''Install ''"
| "actionPrefix RemoveCall = Some ''Removing ''"
| "actionPrefix StartCall = Some ''Starting ''"
| "actionPrefix StopCall = Some ''Stopping ''"
| "actionPrefix RestartCall = Some ''Restarting ''"
| "actionPrefix StatusCall = None"
| "actionPrefix (ExecPathCall serviceName) = None"

section \<open>Reading a status report\<close>

text \<open>
  \<open>leftmostDigits lit s pre d post\<close>: the text \<open>s\<close> splits as \<open>pre\<close>, \<open>lit\<close>, the digits
  \<open>d\<close> and \<open>post\<close>, the run of digits \<open>d\<close> is not empty and cannot be extended, and
  \<open>lit\<close> followed by a digit does not occur at any earlier position.
\<close>

definition leftmostDigits :: "string \<Rightarrow> string \<Rightarrow> string \<Rightarrow> string \<Rightarrow> string \<Rightarrow> bool" where
  "leftmostDigits lit s pre d post =
     (s = pre @ lit @ d @ post \<and> d \<noteq> [] \<and> list_all isDigit d
      \<and> (case post of [] \<Rightarrow> True | c # cs \<Rightarrow> \<not> isDigit c)
      \<and> \<not> (\<exists>i < length pre. \<exists>c. isDigit c \<and> hasPrefix (drop i s) (lit @ [c])))"

text \<open>A service name that \<open>regexp.MatchString\<close> reads as the literal text it is.\<close>

definition literalName :: "string \<Rightarrow> bool" where
  "literalName n = list_all (\<lambda>c. ascii c \<and> c \<notin> set metachars) n"

section \<open>Reading an init script\<close>




text \<open>Whether a template parses and mentions no field outside a list of names.\<close>

fun fieldsWithin :: "string list \<Rightarrow> error + piece list \<Rightarrow> bool" where
  "fieldsWithin fs (Inl e) = False"
| "fieldsWithin fs (Inr ps) =
     list_all (\<lambda>p. case p of Text t \<Rightarrow> True | Field f \<Rightarrow> f \<in> set fs) ps"

text \<open>
  The script \<open>systemVRecord.Install\<close> writes for a descriptor, the path of the executable
  and the extra arguments.
\<close>

definition systemV_script :: "serviceRecord \<Rightarrow> string \<Rightarrow> string list \<Rightarrow> string" where
  "systemV_script linux execPatch args =
     (case template_Parse systemVConfig of
        Inl e \<Rightarrow> []
      | Inr templ \<Rightarrow>
          fst (render templ
                 (map_of
                    [(''Name'', name linux),
                     (''Port'', port linux),
                     (''Version'', version linux),
                     (''Description'', description linux),
                     (''Path'', execPatch),
                     (''Args'', strings_Join args '' '')])))"

text \<open>The calls of the two loops of \<open>systemVRecord.Install\<close>, in the order they are made.\<close>

definition systemV_links :: "serviceRecord \<Rightarrow> string list" where
  "systemV_links linux =
     map (\<lambda>i. ''/etc/rc'' @ i @ ''.d/S87'' @ name linux) [''2'', ''3'', ''4'', ''5'']
     @ map (\<lambda>i. ''/etc/rc'' @ i @ ''.d/K17'' @ name linux) [''0'', ''1'', ''6'']"

section \<open>Sample descriptor and operating system\<close>

definition fooRecord :: serviceRecord where
  "fooRecord = \<lparr>name = ''foo'', port = ''8080'', version = ''1.0'',
                 description = ''Foo Service'', dependencies = []\<rparr>"

definition sampleMarkers :: markers where
  "sampleMarkers = \<lparr>success = ''[  OK  ]'', failed = ''[FAILED]''\<rparr>"

text \<open>
  A privileged process on a system with no files, where no call fails and every native
  command prints \<open>out\<close>.
\<close>

definition quietWorld :: "string \<Rightarrow> world" where
  "quietWorld out =
     \<lparr>privileged = True, files = Map.empty, fault = (\<lambda>tr c. None),
      stdout = (\<lambda>tr args. out), executableOf = (\<lambda>n. Inr ''/usr/bin/foo''),
      regexpOther = (\<lambda>pat s. (False, None)), trace = []\<rparr>"

text \<open>The same with the definition files of \<open>foo\<close> for both backends in place.\<close>

definition installedWorld :: "string \<Rightarrow> world" where
  "installedWorld out =
     (quietWorld out)
       \<lparr>files := [''/etc/systemd/system/foo.service'' \<mapsto> RegularFile [] 420,
                  ''/etc/init.d/foo'' \<mapsto> RegularFile [] 493]\<rparr>"

text \<open>A system where exactly the calls of \<open>cs\<close> fail.\<close>

definition failingOn :: "oscall list \<Rightarrow> world \<Rightarrow> world" where
  "failingOn cs w =
     w\<lparr>fault := (\<lambda>tr c. if c \<in> set cs then Some (ErrOS ''exit status 1'') else None)\<rparr>"

section \<open>Facts about strings and regular expressions\<close>

lemma hasPrefix_iff: "hasPrefix s p \<longleftrightarrow> (\<exists>post. s = p @ post)"
  by (induction s p rule: hasPrefix.induct) auto

lemma contains_iff: "contains s sub \<longleftrightarrow> (\<exists>pre post. s = pre @ sub @ post)"
proof (induction s)
  case Nil
  then show ?case by auto
next
  case (Cons c cs)
  show ?case
  proof
    assume "contains (c # cs) sub"
    then consider "hasPrefix (c # cs) sub" | "contains cs sub" by auto
    then show "\<exists>pre post. c # cs = pre @ sub @ post"
    proof cases
      case 1
      then obtain post where "c # cs = sub @ post" by (auto simp: hasPrefix_iff)
      then have "c # cs = [] @ sub @ post" by simp
      then show ?thesis by blast
    next
      case 2
      then obtain pre post where "cs = pre @ sub @ post" using Cons.IH by auto
      then have "c # cs = (c # pre) @ sub @ post" by simp
      then show ?thesis by blast
    qed
  next
    assume "\<exists>pre post. c # cs = pre @ sub @ post"
    then obtain pre post where e: "c # cs = pre @ sub @ post" by blast
    show "contains (c # cs) sub"
    proof (cases pre)
      case Nil
      with e have "hasPrefix (c # cs) sub" by (auto simp: hasPrefix_iff)
      then show ?thesis by simp
    next
      case (Cons a pre')
      with e have "cs = pre' @ sub @ post" by simp
      then have "contains cs sub" using Cons.IH by blast
      then show ?thesis by simp
    qed
  qed
qed

lemma matchHere_literal:
  "CHR ''.'' \<notin> set pat \<Longrightarrow> matchHere pat s = hasPrefix s pat"
  by (induction pat s rule: matchHere.induct) auto

lemma matchAnywhere_literal:
  "CHR ''.'' \<notin> set pat \<Longrightarrow> matchAnywhere pat s = contains s pat"
  by (induction s) (auto simp: matchHere_literal; cases pat; simp)+

lemma regexp_Active:
  "regexp_MatchString w ''Active: active'' s = (contains s ''Active: active'', None)"
proof -
  have nd: "CHR ''.'' \<notin> set ''Active: active''" by simp
  have "inFragment ''Active: active'' s"
    by (simp add: inFragment_def ascii_def metachars_def)
  then show ?thesis
    by (simp add: regexp_MatchString_def matchAnywhere_literal [OF nd])
qed

lemma takeWhile_ne: "takeWhile P xs \<noteq> [] \<longleftrightarrow> (\<exists>c cs. xs = c # cs \<and> P c)"
  by (cases xs) auto

lemma submatchHere_None:
  "submatchHere lit s = None \<longleftrightarrow> \<not> (\<exists>c. isDigit c \<and> hasPrefix s (lit @ [c]))"
proof (cases "hasPrefix s lit")
  case False
  then have "\<And>c. \<not> hasPrefix s (lit @ [c])" by (auto simp: hasPrefix_iff)
  with False show ?thesis by (simp add: submatchHere_def)
next
  case True
  then obtain post where s: "s = lit @ post" by (auto simp: hasPrefix_iff)
  show ?thesis
    using True by (auto simp: s submatchHere_def Let_def hasPrefix_iff takeWhile_ne)
qed

lemma findDigitsSubmatch_unfold:
  "findDigitsSubmatch lit s =
     (case submatchHere lit s of Some r \<Rightarrow> r
      | None \<Rightarrow> (case s of [] \<Rightarrow> [] | c # cs \<Rightarrow> findDigitsSubmatch lit cs))"
  by (cases s) (auto split: option.splits)

lemma submatchHere_Some: "submatchHere lit s = Some r \<Longrightarrow> \<exists>m d. r = [m, d] \<and> d \<noteq> []"
  by (auto simp: submatchHere_def Let_def split: if_splits)

lemma findDigitsSubmatch_shape:
  "findDigitsSubmatch lit s = [] \<or> (\<exists>m d. findDigitsSubmatch lit s = [m, d])"
  by (induction s) (auto split: option.splits dest: submatchHere_Some)

lemma findDigitsSubmatch_Nil:
  "findDigitsSubmatch lit s = [] \<longleftrightarrow> \<not> (\<exists>c. isDigit c \<and> contains s (lit @ [c]))"
proof (induction s)
  case Nil
  have "submatchHere lit [] = None" by (simp add: submatchHere_None hasPrefix_iff)
  then show ?case by simp
next
  case (Cons a s)
  show ?case
  proof (cases "submatchHere lit (a # s)")
    case None
    then have a: "findDigitsSubmatch lit (a # s) = findDigitsSubmatch lit s" by simp
    have b: "\<And>c. isDigit c \<Longrightarrow> \<not> hasPrefix (a # s) (lit @ [c])"
      using None submatchHere_None [of lit "a # s"] by blast
    have "(\<exists>c. isDigit c \<and> contains (a # s) (lit @ [c])) = (\<exists>c. isDigit c \<and> contains s (lit @ [c]))"
      using b by auto
    then show ?thesis unfolding a using Cons.IH by simp
  next
    case (Some r)
    then have "\<exists>c. isDigit c \<and> hasPrefix (a # s) (lit @ [c])"
      using submatchHere_None [of lit "a # s"] by auto
    moreover have "r \<noteq> []" using submatchHere_Some [OF Some] by auto
    ultimately show ?thesis using Some by auto
  qed
qed

lemma takeWhile_digits:
  "list_all isDigit d \<Longrightarrow> (case post of [] \<Rightarrow> True | c # cs \<Rightarrow> \<not> isDigit c) \<Longrightarrow>
   takeWhile isDigit (d @ post) = d"
  by (induction d) (auto split: list.splits)

lemma findDigitsSubmatch_leftmost:
  "leftmostDigits lit s pre d post \<Longrightarrow> findDigitsSubmatch lit s = [lit @ d, d]"
proof (induction pre arbitrary: s)
  case Nil
  then have s: "s = lit @ d @ post" and d: "d \<noteq> []" "list_all isDigit d"
    and p: "(case post of [] \<Rightarrow> True | c # cs \<Rightarrow> \<not> isDigit c)"
    by (auto simp: leftmostDigits_def)
  have "hasPrefix s lit" by (auto simp: s hasPrefix_iff)
  then have "submatchHere lit s = Some [lit @ d, d]"
    using d by (simp add: submatchHere_def s takeWhile_digits [OF d(2) p])
  then show ?case by (simp add: findDigitsSubmatch_unfold)
next
  case (Cons a pre)
  let ?t = "pre @ lit @ d @ post"
  from Cons.prems have s: "s = a # ?t" by (simp add: leftmostDigits_def)
  from Cons.prems have no0: "\<not> (\<exists>c. isDigit c \<and> hasPrefix (drop 0 s) (lit @ [c]))"
    unfolding leftmostDigits_def by (metis length_greater_0_conv list.distinct(1))
  then have h: "submatchHere lit s = None" by (simp add: submatchHere_None)
  have "leftmostDigits lit ?t pre d post"
    unfolding leftmostDigits_def
  proof (intro conjI)
    show "\<not> (\<exists>i<length pre. \<exists>c. isDigit c \<and> hasPrefix (drop i ?t) (lit @ [c]))"
    proof
      assume "\<exists>i<length pre. \<exists>c. isDigit c \<and> hasPrefix (drop i ?t) (lit @ [c])"
      then obtain i c where "i < length pre" "isDigit c" "hasPrefix (drop i ?t) (lit @ [c])"
        by blast
      then have "Suc i < length (a # pre) \<and> isDigit c \<and> hasPrefix (drop (Suc i) s) (lit @ [c])"
        by (simp add: s)
      with Cons.prems show False unfolding leftmostDigits_def by blast
    qed
  qed (use Cons.prems in \<open>auto simp: leftmostDigits_def\<close>)
  then have "findDigitsSubmatch lit ?t = [lit @ d, d]" by (rule Cons.IH)
  with h show ?case by (simp add: s)
qed

section \<open>The systemd status parser\<close>

text \<open>
  Claim C2. \<open>systemDRecord.checkRunning\<close> reports running exactly when
  \<open>systemctl status\<close> returned no error and its output contains \<open>Active: active\<close>.
  When running, the message carries the digits of the leftmost \<open>Main PID: <digits>\<close>,
  and no process id when \<open>Main PID: \<close> is nowhere followed by a digit. In every other
  case the message is the stopped one. The function is total and has no error result.
\<close>

theorem systemD_checkRunning_parser:
  "(let cmd = [''systemctl'', ''status'', name linux @ ''.service''];
        out = stdout w (trace w) cmd;
        active = (fault w (trace w) (Command cmd) = None \<and> contains out ''Active: active'');
        res = fst (systemD_checkRunning linux w)
    in snd res = active
     \<and> (\<forall>pre d post. active \<and> leftmostDigits ''Main PID: '' out pre d post \<longrightarrow>
            fst res = ''Service '' @ name linux @ '' (pid  '' @ d @ '') is running...'')
     \<and> (active \<and> \<not> (\<exists>c. isDigit c \<and> contains out (''Main PID: '' @ [c])) \<longrightarrow>
            fst res = ''Service '' @ name linux @ '' is running...'')
     \<and> (\<not> active \<longrightarrow> fst res = ''Service '' @ name linux @ '' is stopped''))"
proof -
  define cmd where "cmd = [''systemctl'', ''status'', name linux @ ''.service'']"
  define out where "out = stdout w (trace w) cmd"
  define active where
    "active = (fault w (trace w) (Command cmd) = None \<and> contains out ''Active: active'')"
  define res where "res = fst (systemD_checkRunning linux w)"
  have r: "res =
    (if active
     then (let data = findDigitsSubmatch ''Main PID: '' out
           in if length data > 1
              then (''Service '' @ name linux @ '' (pid  '' @ data ! 1 @ '') is running...'', True)
              else (''Service '' @ name linux @ '' is running...'', True))
     else (''Service '' @ name linux @ '' is stopped'', False))"
    unfolding res_def active_def out_def cmd_def
    by (simp add: systemD_checkRunning_def exec_Output_def regexp_Active Let_def)
  have 1: "snd res = active" by (simp add: r Let_def)
  have 2: "fst res = ''Service '' @ name linux @ '' (pid  '' @ d @ '') is running...''"
    if "active" "leftmostDigits ''Main PID: '' out pre d post" for pre d post
    using that(1) findDigitsSubmatch_leftmost [OF that(2)] by (simp add: r)
  have 3: "fst res = ''Service '' @ name linux @ '' is running...''"
    if "active" "\<not> (\<exists>c. isDigit c \<and> contains out (''Main PID: '' @ [c]))"
  proof -
    have "findDigitsSubmatch ''Main PID: '' out = []"
      using that(2) findDigitsSubmatch_Nil [of "''Main PID: ''" out] by blast
    then show ?thesis using that(1) by (simp add: r)
  qed
  have 4: "fst res = ''Service '' @ name linux @ '' is stopped''" if "\<not> active"
    using that by (simp add: r)
  show ?thesis
    unfolding Let_def cmd_def [symmetric] out_def [symmetric] active_def [symmetric]
      res_def [symmetric]
    using 1 2 3 4 by blast
qed


theorem systemD_checkRunning_parser_witness:
  "leftmostDigits ''Main PID: '' ''Active: active\<newline>...Main PID: 4321''
       ''Active: active\<newline>...'' ''4321'' []
   \<and> contains ''Active: active\<newline>...Main PID: 4321'' ''Active: active''
   \<and> systemD_checkRunning fooRecord (quietWorld ''Active: active\<newline>...Main PID: 4321'')
       = ((''Service foo (pid  4321) is running...'', True),
          attempt (Command [''systemctl'', ''status'', ''foo.service''])
            (quietWorld ''Active: active\<newline>...Main PID: 4321''))
   \<and> fst (systemD_checkRunning fooRecord (quietWorld ''loaded\<newline>Active: inactive (dead)''))
       = (''Service foo is stopped'', False)"
proof -
  let ?out = "''Active: active\<newline>...Main PID: 4321''"
  have l: "leftmostDigits ''Main PID: '' ?out ''Active: active\<newline>...'' ''4321'' []"
    by (simp add: leftmostDigits_def isDigit_def Ex_less_Suc)
  have c: "contains ?out ''Active: active''" by simp
  have w: "snd (systemD_checkRunning fooRecord (quietWorld ?out))
       = attempt (Command [''systemctl'', ''status'', ''foo.service'']) (quietWorld ?out)"
    by (simp add: systemD_checkRunning_def exec_Output_def Let_def fooRecord_def split: prod.splits)
  let ?cmd = "[''systemctl'', ''status'', name fooRecord @ ''.service'']"
  have o: "stdout (quietWorld ?out) (trace (quietWorld ?out)) ?cmd = ?out"
    by (simp add: quietWorld_def)
  have f: "fault (quietWorld ?out) (trace (quietWorld ?out)) (Command ?cmd) = None"
    by (simp add: quietWorld_def)
  have a1: "fst (fst (systemD_checkRunning fooRecord (quietWorld ?out)))
       = ''Service '' @ name fooRecord @ '' (pid  '' @ ''4321'' @ '') is running...''"
    using systemD_checkRunning_parser [of fooRecord "quietWorld ?out", unfolded Let_def o f] l c
    by blast
  have a2: "snd (fst (systemD_checkRunning fooRecord (quietWorld ?out)))"
    using systemD_checkRunning_parser [of fooRecord "quietWorld ?out", unfolded Let_def o f] c
    by blast
  have a: "fst (systemD_checkRunning fooRecord (quietWorld ?out))
       = (''Service foo (pid  4321) is running...'', True)"
    using a1 a2 by (simp add: prod_eq_iff fooRecord_def)
  let ?dead = "''loaded\<newline>Active: inactive (dead)''"
  have o': "stdout (quietWorld ?dead) (trace (quietWorld ?dead)) ?cmd = ?dead"
    by (simp add: quietWorld_def)
  have nc: "\<not> contains ?dead ''Active: active''" by simp
  have b1: "fst (fst (systemD_checkRunning fooRecord (quietWorld ?dead)))
       = ''Service '' @ name fooRecord @ '' is stopped''"
    using systemD_checkRunning_parser [of fooRecord "quietWorld ?dead", unfolded Let_def o'] nc
    by blast
  have b2: "\<not> snd (fst (systemD_checkRunning fooRecord (quietWorld ?dead)))"
    using systemD_checkRunning_parser [of fooRecord "quietWorld ?dead", unfolded Let_def o'] nc
    by blast
  have b: "fst (systemD_checkRunning fooRecord (quietWorld ?dead))
       = (''Service foo is stopped'', False)"
    using b1 b2 by (simp add: prod_eq_iff fooRecord_def)
  show ?thesis using l c w a b by (simp add: prod_eq_iff)
qed

section \<open>Facts about the operating system\<close>

lemma attempt_fields [simp]:
  "trace (attempt c w) = trace w @ [c]"
  "files (attempt c w) = files w"
  "fault (attempt c w) = fault w"
  "privileged (attempt c w) = privileged w"
  "stdout (attempt c w) = stdout w"
  "executableOf (attempt c w) = executableOf w"
  "regexpOther (attempt c w) = regexpOther w"
  by (simp_all add: attempt_def)

lemma checkRunning_world:
  "snd (systemD_checkRunning linux w)
     = attempt (Command [''systemctl'', ''status'', name linux @ ''.service'']) w"
  "snd (systemV_checkRunning linux w) = attempt (Command [''service'', name linux, ''status'']) w"
  by (simp_all add: systemD_checkRunning_def systemV_checkRunning_def exec_Output_def Let_def
        split: prod.splits)

section \<open>The privilege guard\<close>

lemmas method_defs =
  systemD_Install_def systemD_Remove_def systemD_Start_def systemD_Stop_def
  systemD_Restart_def systemD_Status_def systemD_ExecPath_def
  systemV_Install_def systemV_Remove_def systemV_Start_def systemV_Stop_def
  systemV_Restart_def systemV_Status_def systemV_ExecPath_def

text \<open>
  Claim C4. In both backends each of the seven methods asks the privilege guard before
  anything else. When the guard denies access, the method returns the guard's error and
  the operating system is left exactly as it was: no file created, removed or changed,
  no link made, no native command run.
\<close>

theorem privilege_checked_first:
  "\<not> privileged w \<Longrightarrow>
     snd (fst (invoke m d c w)) = Some ErrPermissionDenied \<and> snd (invoke m d c w) = w"
  by (cases d; cases c) (simp_all add: method_defs checkPrivileges_def Let_def)

theorem privilege_checked_first_witness:
  "\<not> privileged ((installedWorld [])\<lparr>privileged := False\<rparr>)
   \<and> invoke sampleMarkers (SystemV fooRecord) (InstallCall [''--x''])
        ((installedWorld [])\<lparr>privileged := False\<rparr>)
       = ((''Install Foo Service:[FAILED]'', Some ErrPermissionDenied),
          (installedWorld [])\<lparr>privileged := False\<rparr>)
   \<and> invoke sampleMarkers (SystemD fooRecord) RemoveCall
        ((installedWorld [])\<lparr>privileged := False\<rparr>)
       = ((''Removing Foo Service:[FAILED]'', Some ErrPermissionDenied),
          (installedWorld [])\<lparr>privileged := False\<rparr>)"
proof -
  let ?w = "(installedWorld [])\<lparr>privileged := False\<rparr>"
  have p: "\<not> privileged ?w" by simp
  have a: "fst (fst (invoke sampleMarkers (SystemV fooRecord) (InstallCall [''--x'']) ?w))
            = ''Install Foo Service:[FAILED]''"
    by (simp add: systemV_Install_def checkPrivileges_def Let_def fooRecord_def
          sampleMarkers_def)
  have b: "fst (fst (invoke sampleMarkers (SystemD fooRecord) RemoveCall ?w))
            = ''Removing Foo Service:[FAILED]''"
    by (simp add: systemD_Remove_def checkPrivileges_def Let_def fooRecord_def
          sampleMarkers_def)
  show ?thesis
    using p a b
      privilege_checked_first [OF p, of sampleMarkers "SystemV fooRecord" "InstallCall [''--x'']"]
      privilege_checked_first [OF p, of sampleMarkers "SystemD fooRecord" RemoveCall]
    by (simp add: prod_eq_iff)
qed

section \<open>Construction of a backend\<close>

text \<open>
  Claim C8. \<open>newDaemon\<close> looks at one thing only, whether \<open>/run/systemd/system\<close> exists.
  If it does the systemd record is returned, otherwise the init-script record; in both
  cases the error is nil and the five fields of the record are the arguments, unchanged.
\<close>

theorem newDaemon_selects_backend:
  "newDaemon n p v d deps w =
     ((if files w ''/run/systemd/system'' = None then SystemV else SystemD)
        \<lparr>name = n, port = p, version = v, description = d, dependencies = deps\<rparr>, None)"
  by (simp add: newDaemon_def os_Stat_def)

section \<open>The path of the executable\<close>

text \<open>
  Claim C10. In both backends \<open>ExecPath\<close>, once the privilege guard has passed, looks for
  the definition file of the backend's own service and for no other file. If that file
  is missing the result is \<open>ErrNotInstalled\<close>, whatever service name was given. Otherwise
  the native tool is asked about the given name, or about the backend's own name when
  the given name is empty, and its output and error are the result.
\<close>

theorem ExecPath_own_definition_file:
  "privileged w \<Longrightarrow>
     invoke m d (ExecPathCall n) w =
       (if files w (servicePath d) = None
        then (([], Some ErrNotInstalled), w)
        else exec_Output (execPathCommand d (if n = [] then name (descriptor d) else n)) w)"
  by (cases d) (simp_all add: systemD_ExecPath_def systemV_ExecPath_def checkPrivileges_def
        systemD_isInstalled_def systemV_isInstalled_def os_Stat_def Let_def)

theorem ExecPath_own_definition_file_witness:
  "privileged (installedWorld ''/usr/bin/bar'')
   \<and> files (installedWorld ''/usr/bin/bar'') ''/etc/init.d/bar'' = None
   \<and> invoke sampleMarkers (SystemV fooRecord) (ExecPathCall ''bar'') (installedWorld ''/usr/bin/bar'')
       = ((''/usr/bin/bar'', None),
          attempt (Command [''service'', ''bar'', ''execpath'']) (installedWorld ''/usr/bin/bar''))
   \<and> invoke sampleMarkers (SystemD fooRecord) (ExecPathCall []) (installedWorld ''/usr/bin/bar'')
       = ((''/usr/bin/bar'', None),
          attempt (Command [''systemctl'', ''execpath'', ''foo.service''])
            (installedWorld ''/usr/bin/bar''))
   \<and> invoke sampleMarkers (SystemV fooRecord) (ExecPathCall ''foo'') (quietWorld ''/usr/bin/bar'')
       = (([], Some ErrNotInstalled), quietWorld ''/usr/bin/bar'')"
proof -
  have p: "privileged (installedWorld ''/usr/bin/bar'')" "privileged (quietWorld ''/usr/bin/bar'')"
    by (simp_all add: installedWorld_def quietWorld_def)
  show ?thesis
    using ExecPath_own_definition_file [OF p(1), of sampleMarkers "SystemV fooRecord" "''bar''"]
      ExecPath_own_definition_file [OF p(1), of sampleMarkers "SystemD fooRecord" "[]"]
      ExecPath_own_definition_file [OF p(2), of sampleMarkers "SystemV fooRecord" "''foo''"]
    by (simp add: installedWorld_def quietWorld_def exec_Output_def fooRecord_def
          systemV_servicePath_def systemD_servicePath_def)
qed

section \<open>Removing a service\<close>

lemma os_Remove_trace [simp]: "trace (snd (os_Remove p w)) = trace w @ [Remove p]"
  by (simp add: os_Remove_def split: option.splits)




section \<open>The messages of the methods\<close>

text \<open>
  Claim C7, as the code has it. \<open>Install\<close>, \<open>Remove\<close>, \<open>Start\<close>, \<open>Stop\<close> and \<open>Restart\<close>
  return, on every path, the action prefix, the description, a colon and then the success
  marker when the error is nil and the failure marker otherwise. \<open>Status\<close> and \<open>ExecPath\<close>
  do not. When the privilege guard denies access both return the empty string with the
  guard's error. When the service is not installed \<open>Status\<close> returns
  \<open>Status could not defined\<close> and \<open>ExecPath\<close> the empty string, each with
  \<open>ErrNotInstalled\<close>. Otherwise \<open>Status\<close> returns the line of the status parser with a
  nil error, and \<open>ExecPath\<close> returns what the native tool printed together with the
  error of running it.
\<close>

theorem action_messages:
  "(case actionPrefix c of
      Some a \<Rightarrow>
        fst (fst (invoke m d c w)) =
          a @ description (descriptor d) @ '':''
            @ (if snd (fst (invoke m d c w)) = None then success m else failed m)
    | None \<Rightarrow>
        (\<not> privileged w \<longrightarrow> fst (invoke m d c w) = ([], Some ErrPermissionDenied))
        \<and> (privileged w \<and> \<not> isInstalled d w \<longrightarrow>
             fst (invoke m d c w) =
               (if c = StatusCall then ''Status could not defined'' else [],
                Some ErrNotInstalled))
        \<and> (privileged w \<and> isInstalled d w \<longrightarrow>
             invoke m d c w =
               (case c of
                  ExecPathCall n \<Rightarrow>
                    exec_Output
                      (execPathCommand d (if n = [] then name (descriptor d) else n)) w
                | _ \<Rightarrow>
                    ((fst (fst (checkRunning d w)), None), snd (checkRunning d w)))))"
proof (cases d)
  case (SystemD linux)
  show ?thesis
    unfolding SystemD
    by (cases c)
      (auto simp add: method_defs checkPrivileges_def Let_def exec_Run_def
         split: prod.splits option.splits sum.splits)
next
  case (SystemV linux)
  show ?thesis
    unfolding SystemV
    by (cases c)
      (auto simp add: method_defs checkPrivileges_def Let_def exec_Run_def
         split: prod.splits option.splits sum.splits)
qed

theorem action_messages_witness:
  "\<not> privileged ((installedWorld [])\<lparr>privileged := False\<rparr>)
   \<and> fst (invoke sampleMarkers (SystemV fooRecord) (ExecPathCall [])
            ((installedWorld [])\<lparr>privileged := False\<rparr>))
       = ([], Some ErrPermissionDenied)
   \<and> privileged (quietWorld []) \<and> \<not> isInstalled (SystemD fooRecord) (quietWorld [])
   \<and> fst (invoke sampleMarkers (SystemD fooRecord) StatusCall (quietWorld []))
       = (''Status could not defined'', Some ErrNotInstalled)
   \<and> fst (invoke sampleMarkers (SystemV fooRecord) RestartCall (installedWorld []))
       = (''Restarting Foo Service:[  OK  ]'', None)
   \<and> privileged (installedWorld ''foo is running'')
   \<and> isInstalled (SystemV fooRecord) (installedWorld ''foo is running'')
   \<and> invoke sampleMarkers (SystemV fooRecord) StatusCall (installedWorld ''foo is running'')
       = ((''Service foo is running...'', None),
          attempt (Command [''service'', ''foo'', ''status'']) (installedWorld ''foo is running''))
   \<and> isInstalled (SystemD fooRecord) (installedWorld ''foo is running'')
   \<and> invoke sampleMarkers (SystemD fooRecord) (ExecPathCall []) (installedWorld ''foo is running'')
       = ((''foo is running'', None),
          attempt (Command [''systemctl'', ''execpath'', ''foo.service''])
            (installedWorld ''foo is running''))"
proof -
  let ?d = "(installedWorld [])\<lparr>privileged := False\<rparr>"
  let ?r = "installedWorld ''foo is running''"
  have p: "\<not> privileged ?d" by simp
  have q: "privileged (quietWorld [])" "\<not> isInstalled (SystemD fooRecord) (quietWorld [])"
    by (simp_all add: quietWorld_def systemD_isInstalled_def os_Stat_def)
  have e: "snd (fst (invoke sampleMarkers (SystemV fooRecord) RestartCall (installedWorld [])))
            = None"
    by (simp add: systemV_Restart_def checkPrivileges_def Let_def exec_Run_def
          installedWorld_def quietWorld_def systemV_isInstalled_def os_Stat_def
          systemV_servicePath_def fooRecord_def)
  have i: "privileged ?r" "isInstalled (SystemV fooRecord) ?r" "isInstalled (SystemD fooRecord) ?r"
    by (simp_all add: installedWorld_def quietWorld_def systemV_isInstalled_def
          systemD_isInstalled_def os_Stat_def systemV_servicePath_def systemD_servicePath_def
          fooRecord_def)
  have k: "fst (fst (checkRunning (SystemV fooRecord) ?r)) = ''Service foo is running...''"
    by (simp add: systemV_checkRunning_def exec_Output_def Let_def regexp_MatchString_def
          inFragment_def ascii_def metachars_def submatchHere_def installedWorld_def
          quietWorld_def fooRecord_def)
  have x: "exec_Output [''systemctl'', ''execpath'', ''foo.service''] ?r =
      ((''foo is running'', None), attempt (Command [''systemctl'', ''execpath'', ''foo.service'']) ?r)"
    by (simp add: exec_Output_def installedWorld_def quietWorld_def)
  have a: "fst (invoke sampleMarkers (SystemV fooRecord) (ExecPathCall []) ?d)
            = ([], Some ErrPermissionDenied)"
    using p action_messages [where c = "ExecPathCall []" and m = sampleMarkers
        and d = "SystemV fooRecord" and w = ?d]
    by simp
  have b: "fst (invoke sampleMarkers (SystemD fooRecord) StatusCall (quietWorld []))
            = (''Status could not defined'', Some ErrNotInstalled)"
    using q action_messages [where c = StatusCall and m = sampleMarkers
        and d = "SystemD fooRecord" and w = "quietWorld []"]
    by simp
  have c: "fst (invoke sampleMarkers (SystemV fooRecord) RestartCall (installedWorld []))
            = (''Restarting Foo Service:[  OK  ]'', None)"
    using e action_messages [where c = RestartCall and m = sampleMarkers
        and d = "SystemV fooRecord" and w = "installedWorld []"]
    by (simp add: prod_eq_iff fooRecord_def sampleMarkers_def)
  have s: "invoke sampleMarkers (SystemV fooRecord) StatusCall ?r
            = ((''Service foo is running...'', None),
               attempt (Command [''service'', ''foo'', ''status'']) ?r)"
    using i k action_messages [where c = StatusCall and m = sampleMarkers
        and d = "SystemV fooRecord" and w = ?r]
    by (simp add: checkRunning_world fooRecord_def)
  have y: "invoke sampleMarkers (SystemD fooRecord) (ExecPathCall []) ?r
            = ((''foo is running'', None),
               attempt (Command [''systemctl'', ''execpath'', ''foo.service'']) ?r)"
    using i x action_messages [where c = "ExecPathCall []" and m = sampleMarkers
        and d = "SystemD fooRecord" and w = ?r]
    by (simp add: fooRecord_def)
  show ?thesis using p q i a b c s y by simp
qed

text \<open>
  Without privileges \<open>Status\<close> and \<open>ExecPath\<close> return an empty message, which names
  neither an action nor an outcome.
\<close>

theorem Status_denied_empty_message:
  "invoke sampleMarkers (SystemD fooRecord) StatusCall ((installedWorld [])\<lparr>privileged := False\<rparr>)
     = (([], Some ErrPermissionDenied), (installedWorld [])\<lparr>privileged := False\<rparr>)
   \<and> invoke sampleMarkers (SystemV fooRecord) (ExecPathCall ''foo'')
       ((installedWorld [])\<lparr>privileged := False\<rparr>)
     = (([], Some ErrPermissionDenied), (installedWorld [])\<lparr>privileged := False\<rparr>)"
  by (simp add: systemD_Status_def systemV_ExecPath_def checkPrivileges_def)

section \<open>Facts about templates\<close>

text \<open>
  The lexer, one character at a time, as conditional equations whose conditions speak
  about single characters only.
\<close>

lemma lexText_other: "c \<noteq> CHR ''{'' \<Longrightarrow> lexText ps txt (c # cs) = lexText ps (c # txt) cs"
  by simp

lemma lexText_brace:
  "d \<noteq> CHR ''{'' \<Longrightarrow> lexText ps txt (CHR ''{'' # d # cs) = lexText ps (d # CHR ''{'' # txt) cs"
  by simp

lemma lexText_open:
  "lexText ps txt (CHR ''{'' # CHR ''{'' # cs) = lexInsideAction (emit txt ps) [] cs"
  by (simp add: numeral_2_eq_2)

lemma lexText_last: "lexText ps txt [c] = Inr (revOnto (emit (c # txt) ps) [])"
  by simp

lemma lexInsideAction_other:
  "c \<noteq> CHR ''}'' \<Longrightarrow> lexInsideAction ps act (c # cs) = lexInsideAction ps (c # act) cs"
  by simp

lemma lexInsideAction_brace:
  "d \<noteq> CHR ''}'' \<Longrightarrow>
   lexInsideAction ps act (CHR ''}'' # d # cs) = lexInsideAction ps (d # CHR ''}'' # act) cs"
  by simp

lemma lexInsideAction_close:
  "lexInsideAction ps act (CHR ''}'' # CHR ''}'' # cs) =
     (case fieldOf (revOnto act []) of
        None \<Rightarrow> Inl (ErrOS ''template: action outside the fragment'')
      | Some f \<Rightarrow> lexText (Field f # ps) [] cs)"
  by (simp add: numeral_2_eq_2 split: option.split)

lemmas lex_rules =
  lexText.simps(1) lexText_other lexText_brace lexText_open lexText_last
  lexInsideAction.simps(1) lexInsideAction_other lexInsideAction_brace lexInsideAction_close

lemma systemVConfig_fields:
  "fieldsWithin [''Name'', ''Port'', ''Version'', ''Description'', ''Path'', ''Args'']
     (template_Parse systemVConfig)"
  unfolding template_Parse_def systemVConfig_def
  by (simp add: lex_rules fieldOf_def isAlphaNumeric_def emit_def
        del: lexText.simps lexInsideAction.simps)

lemma systemDConfig_fields:
  "fieldsWithin [''Name'', ''Port'', ''Version'', ''Description'', ''Dependencies'', ''Path'']
     (template_Parse systemDConfig)"
  unfolding template_Parse_def systemDConfig_def
  by (simp add: lex_rules fieldOf_def isAlphaNumeric_def emit_def
        del: lexText.simps lexInsideAction.simps)

lemma render_fields:
  "list_all (\<lambda>p. case p of Text t \<Rightarrow> True | Field f \<Rightarrow> f \<in> set fs) ps \<Longrightarrow>
   set fs \<subseteq> dom data \<Longrightarrow> snd (render ps data) = None"
proof (induction ps)
  case Nil
  then show ?case by simp
next
  case (Cons p ps)
  then show ?case
    by (cases p) (auto split: prod.splits option.splits)
qed

lemma fieldsWithin_render:
  assumes "fieldsWithin fs (template_Parse src)" "set fs \<subseteq> dom data"
  obtains templ where "template_Parse src = Inr templ" "snd (render templ data) = None"
proof (cases "template_Parse src")
  case (Inl e)
  with assms(1) show ?thesis by simp
next
  case (Inr templ)
  with assms have "snd (render templ data) = None" by (simp add: render_fields)
  with Inr show ?thesis by (rule that)
qed

section \<open>Facts about the runlevel links\<close>

lemma os_Symlink_trace [simp]:
  "trace (snd (os_Symlink a b w)) = trace w @ [Symlink a b]"
  by (simp add: os_Symlink_def split: option.splits)

lemma os_Symlink_files: "files w p \<noteq> None \<Longrightarrow> files (snd (os_Symlink a b w)) p = files w p"
  by (auto simp: os_Symlink_def split: option.splits)

lemma os_Symlink_privileged [simp]: "privileged (snd (os_Symlink a b w)) = privileged w"
  by (simp add: os_Symlink_def split: option.splits)

lemma os_Symlink_fault [simp]: "fault (snd (os_Symlink a b w)) = fault w"
  by (simp add: os_Symlink_def split: option.splits)

lemma links_fold_files:
  "files w x \<noteq> None \<Longrightarrow> files (foldl (\<lambda>v l. snd (os_Symlink a l v)) w ls) x = files w x"
  by (induction ls arbitrary: w) (simp_all add: os_Symlink_files)

lemma links_fold_created:
  "distinct ls \<Longrightarrow> k < length ls \<Longrightarrow>
   fault w (trace w @ map (Symlink a) (take k ls)) (Symlink a (ls ! k)) = None \<Longrightarrow>
   files w (ls ! k) = None \<Longrightarrow>
   files (foldl (\<lambda>v l. snd (os_Symlink a l v)) w ls) (ls ! k) = Some (SymbolicLink a)"
proof (induction ls arbitrary: w k)
  case Nil
  then show ?case by simp
next
  case (Cons l ls)
  show ?case
  proof (cases k)
    case 0
    with Cons.prems have "files (snd (os_Symlink a l w)) l = Some (SymbolicLink a)"
      by (simp add: os_Symlink_def)
    then show ?thesis
      using 0 by (simp add: links_fold_files)
  next
    case (Suc j)
    let ?w = "snd (os_Symlink a l w)"
    from Cons.prems Suc have ne: "ls ! j \<noteq> l" by auto
    have "files ?w (ls ! j) = files w (ls ! j)"
      using ne by (auto simp: os_Symlink_def split: option.splits)
    with Cons.prems Suc have "files ?w (ls ! j) = None" by simp
    moreover have "fault ?w (trace ?w @ map (Symlink a) (take j ls)) (Symlink a (ls ! j)) = None"
      using Cons.prems Suc by simp
    moreover have "distinct ls" "j < length ls" using Cons.prems Suc by simp_all
    ultimately have "files (foldl (\<lambda>v l. snd (os_Symlink a l v)) ?w ls) (ls ! j)
        = Some (SymbolicLink a)"
      using Cons.IH [of j ?w] by blast
    then show ?thesis using Suc by simp
  qed
qed

lemma systemV_links_distinct: "distinct (systemV_links linux)"
  by (simp add: systemV_links_def)

lemma systemV_links_other: "l \<in> set (systemV_links linux) \<Longrightarrow> l \<noteq> systemV_servicePath linux"
  by (auto simp: systemV_links_def systemV_servicePath_def)

section \<open>Installing with the init-script backend\<close>

text \<open>
  \<open>Install\<close> up to and including the write of the script: with the guard passed, the
  service not installed, the executable found and neither the creation of the file nor
  the write failing, what is left is the change of mode and the two loops.
\<close>

lemma systemV_Install_written:
  assumes priv: "privileged w" and inst: "\<not> systemV_isInstalled linux w"
    and exe: "executableOf w (name linux) = Inr execPatch"
    and c: "fault w (trace w) (Create (systemV_servicePath linux)) = None"
    and f: "fault w (trace w @ [Create (systemV_servicePath linux)])
              (FileWrite (systemV_servicePath linux) (systemV_script linux execPatch args)) = None"
  shows "systemV_Install m linux args w =
     (case os_Chmod (systemV_servicePath linux) 493
             (w\<lparr>files := (files w)(systemV_servicePath linux \<mapsto>
                         RegularFile (systemV_script linux execPatch args) 438),
                trace := trace w @ [Create (systemV_servicePath linux),
                           FileWrite (systemV_servicePath linux)
                             (systemV_script linux execPatch args)]\<rparr>) of
        (Some e, w3) \<Rightarrow> ((''Install '' @ description linux @ '':'' @ failed m, Some e), w3)
      | (None, w3) \<Rightarrow>
          ((''Install '' @ description linux @ '':'' @ success m, None),
           foldl (\<lambda>v l. snd (os_Symlink (systemV_servicePath linux) l v)) w3
             (systemV_links linux)))"
proof -
  define p where "p = systemV_servicePath linux"
  define data where "data = map_of
     [(''Name'', name linux), (''Port'', port linux), (''Version'', version linux),
      (''Description'', description linux), (''Path'', execPatch),
      (''Args'', strings_Join args '' '')]"
  define script where "script = systemV_script linux execPatch args"
  have dom: "set [''Name'', ''Port'', ''Version'', ''Description'', ''Path'', ''Args'']
               \<subseteq> dom data"
    by (simp add: data_def)
  obtain templ where t: "template_Parse systemVConfig = Inr templ"
    and r: "snd (render templ data) = None"
    using systemVConfig_fields dom by (rule fieldsWithin_render)
  have s: "render templ data = (script, None)"
    using r by (simp add: script_def systemV_script_def t data_def prod_eq_iff)
  have n: "files w p = None"
    using inst by (simp add: systemV_isInstalled_def os_Stat_def p_def)
  define w1 where "w1 = (attempt (Create p) w)\<lparr>files := (files w)(p \<mapsto> RegularFile [] 438)\<rparr>"
  define w2 where
    "w2 = w\<lparr>files := (files w)(p \<mapsto> RegularFile script 438),
             trace := trace w @ [Create p, FileWrite p script]\<rparr>"
  have 1: "os_Create p w = (None, w1)"
    using c n by (simp add: os_Create_def w1_def p_def)
  have 2: "template_Execute templ p data w1 = (None, w2)"
    using f
    by (simp add: template_Execute_def s file_Write_def w1_def w2_def p_def script_def
          attempt_def)
  have e: "executablePath (name linux) w1 = Inr execPatch"
    using exe by (simp add: executablePath_def w1_def)
  have l: "foldl (\<lambda>v i. snd (os_Symlink p (''/etc/rc'' @ i @ ''.d/K17'' @ name linux) v))
             (foldl (\<lambda>v i. snd (os_Symlink p (''/etc/rc'' @ i @ ''.d/S87'' @ name linux) v))
                w3 [''2'', ''3'', ''4'', ''5''])
             [''0'', ''1'', ''6'']
           = foldl (\<lambda>v l. snd (os_Symlink p l v)) w3 (systemV_links linux)" for w3
    by (simp add: systemV_links_def)
  have "systemV_Install m linux args w =
     (case os_Chmod p 493 w2 of
        (Some e, w3) \<Rightarrow> (((''Install '' @ description linux @ '':'') @ failed m, Some e), w3)
      | (None, w3) \<Rightarrow>
          (((''Install '' @ description linux @ '':'') @ success m, None),
           foldl (\<lambda>v i. snd (os_Symlink p (''/etc/rc'' @ i @ ''.d/K17'' @ name linux) v))
             (foldl (\<lambda>v i. snd (os_Symlink p (''/etc/rc'' @ i @ ''.d/S87'' @ name linux) v))
                w3 [''2'', ''3'', ''4'', ''5''])
             [''0'', ''1'', ''6'']))"
    unfolding systemV_Install_def Let_def p_def [symmetric]
    using priv inst
    by (simp add: checkPrivileges_def 1 e t 2 [unfolded data_def] del: map_of.simps)
  then show ?thesis
    unfolding l p_def [symmetric] script_def [symmetric] w2_def [symmetric]
    by (simp split: prod.splits option.splits)
qed

text \<open>
  Claim C6, as the code has it. With the script written, \<open>Install\<close> next sets its mode to
  \<open>0755\<close>, and a failure of that call is the result of \<open>Install\<close>: the script stays
  written, no link is tried and the outcome is a failure. Only when the change of mode
  succeeds does \<open>Install\<close> call \<open>os.Symlink\<close> once for each of \<open>S87<name>\<close> in
  \<open>/etc/rc2.d\<close> to \<open>/etc/rc5.d\<close> and then \<open>K17<name>\<close> in \<open>/etc/rc0.d\<close>, \<open>/etc/rc1.d\<close> and
  \<open>/etc/rc6.d\<close>, in this order and whatever the earlier calls returned, and report
  success. A link whose call does not fail and whose name was free is then in place and
  points to the script.
\<close>

theorem systemV_Install_registration:
  "privileged w \<Longrightarrow> \<not> isInstalled (SystemV linux) w \<Longrightarrow>
   executableOf w (name linux) = Inr execPatch \<Longrightarrow>
   (let p = ''/etc/init.d/'' @ name linux;
        script = systemV_script linux execPatch args;
        written = trace w @ [Create p, FileWrite p script];
        links = [''/etc/rc2.d/S87'' @ name linux, ''/etc/rc3.d/S87'' @ name linux,
                 ''/etc/rc4.d/S87'' @ name linux, ''/etc/rc5.d/S87'' @ name linux,
                 ''/etc/rc0.d/K17'' @ name linux, ''/etc/rc1.d/K17'' @ name linux,
                 ''/etc/rc6.d/K17'' @ name linux];
        r = invoke m (SystemV linux) (InstallCall args) w
    in fault w (trace w) (Create p) = None
       \<and> fault w (trace w @ [Create p]) (FileWrite p script) = None \<longrightarrow>
       (case fault w written (Chmod p 493) of
          Some e \<Rightarrow>
            fst r = (''Install '' @ description linux @ '':'' @ failed m, Some e)
            \<and> trace (snd r) = written @ [Chmod p 493]
            \<and> files (snd r) = (files w)(p \<mapsto> RegularFile script 438)
        | None \<Rightarrow>
            fst r = (''Install '' @ description linux @ '':'' @ success m, None)
            \<and> trace (snd r) = written @ [Chmod p 493] @ map (Symlink p) links
            \<and> files (snd r) p = Some (RegularFile script 493)
            \<and> (\<forall>k < length links.
                  fault w (written @ [Chmod p 493] @ map (Symlink p) (take k links))
                    (Symlink p (links ! k)) = None
                  \<and> files w (links ! k) = None \<longrightarrow>
                  files (snd r) (links ! k) = Some (SymbolicLink p))))"
proof -
  assume priv: "privileged w" and ni: "\<not> isInstalled (SystemV linux) w"
    and exe: "executableOf w (name linux) = Inr execPatch"
  define p where "p = systemV_servicePath linux"
  define script where "script = systemV_script linux execPatch args"
  define written where "written = trace w @ [Create p, FileWrite p script]"
  define links where "links = systemV_links linux"
  define r where "r = systemV_Install m linux args w"
  define w2 where "w2 = w\<lparr>files := (files w)(p \<mapsto> RegularFile script 438), trace := written\<rparr>"
  have inst: "\<not> systemV_isInstalled linux w" using ni by simp
  have main: "(case fault w written (Chmod p 493) of
          Some e \<Rightarrow>
            fst r = (''Install '' @ description linux @ '':'' @ failed m, Some e)
            \<and> trace (snd r) = written @ [Chmod p 493]
            \<and> files (snd r) = (files w)(p \<mapsto> RegularFile script 438)
        | None \<Rightarrow>
            fst r = (''Install '' @ description linux @ '':'' @ success m, None)
            \<and> trace (snd r) = written @ [Chmod p 493] @ map (Symlink p) links
            \<and> files (snd r) p = Some (RegularFile script 493)
            \<and> (\<forall>k < length links.
                  fault w (written @ [Chmod p 493] @ map (Symlink p) (take k links))
                    (Symlink p (links ! k)) = None
                  \<and> files w (links ! k) = None \<longrightarrow>
                  files (snd r) (links ! k) = Some (SymbolicLink p)))"
    if c: "fault w (trace w) (Create p) = None"
      and f: "fault w (trace w @ [Create p]) (FileWrite p script) = None"
  proof -
    have i: "r = (case os_Chmod p 493 w2 of
        (Some e, w3) \<Rightarrow> ((''Install '' @ description linux @ '':'' @ failed m, Some e), w3)
      | (None, w3) \<Rightarrow>
          ((''Install '' @ description linux @ '':'' @ success m, None),
           foldl (\<lambda>v l. snd (os_Symlink p l v)) w3 links))"
      unfolding r_def w2_def written_def links_def p_def script_def
      using c f by (intro systemV_Install_written [OF priv inst exe]) (simp_all add: p_def script_def)
    have tr2: "trace w2 = written" and fa2: "fault w2 = fault w"
      and f2: "files w2 = (files w)(p \<mapsto> RegularFile script 438)"
      by (simp_all add: w2_def)
    show ?thesis
    proof (cases "fault w written (Chmod p 493)")
      case (Some e)
      have 3: "os_Chmod p 493 w2 = (Some e, attempt (Chmod p 493) w2)"
        using Some by (simp add: os_Chmod_def tr2 fa2)
      show ?thesis using Some by (simp add: i 3 tr2 f2)
    next
      case None
      define w3 where
        "w3 = (attempt (Chmod p 493) w2)\<lparr>files := (files w2)(p \<mapsto> RegularFile script 493)\<rparr>"
      have 3: "os_Chmod p 493 w2 = (None, w3)"
        using None by (simp add: os_Chmod_def tr2 fa2 f2 w3_def)
      have tr3: "trace w3 = written @ [Chmod p 493]" and fa3: "fault w3 = fault w"
        and f3: "files w3 p = Some (RegularFile script 493)"
        by (simp_all add: w3_def tr2 fa2 f2)
      have tr: "trace (foldl (\<lambda>v l. snd (os_Symlink p l v)) v ls) = trace v @ map (Symlink p) ls"
        for v ls
        by (induction ls arbitrary: v) simp_all
      have cr: "files (foldl (\<lambda>v l. snd (os_Symlink p l v)) w3 links) (links ! k)
                  = Some (SymbolicLink p)"
        if k: "k < length links"
          and fk: "fault w (written @ [Chmod p 493] @ map (Symlink p) (take k links))
                     (Symlink p (links ! k)) = None"
          and nk: "files w (links ! k) = None" for k
      proof -
        have "links ! k \<in> set links" using k by simp
        then have "links ! k \<noteq> p"
          unfolding links_def p_def by (rule systemV_links_other)
        then have "files w3 (links ! k) = None"
          using nk by (simp add: w3_def f2)
        moreover have "fault w3 (trace w3 @ map (Symlink p) (take k links))
                         (Symlink p (links ! k)) = None"
          using fk by (simp add: tr3 fa3)
        moreover have "distinct links" unfolding links_def by (rule systemV_links_distinct)
        ultimately show ?thesis using k links_fold_created [of links k w3 p] by blast
      qed
      show ?thesis
        using None cr by (simp add: i 3 tr tr3 links_fold_files f3)
    qed
  qed
  have ls: "systemV_links linux =
      [''/etc/rc2.d/S87'' @ name linux, ''/etc/rc3.d/S87'' @ name linux,
       ''/etc/rc4.d/S87'' @ name linux, ''/etc/rc5.d/S87'' @ name linux,
       ''/etc/rc0.d/K17'' @ name linux, ''/etc/rc1.d/K17'' @ name linux,
       ''/etc/rc6.d/K17'' @ name linux]"
    by (simp add: systemV_links_def)
  have ps: "''/etc/init.d/'' @ name linux = p"
    by (simp add: p_def systemV_servicePath_def)
  show ?thesis
    unfolding Let_def invoke.simps ps ls [symmetric] script_def [symmetric]
      links_def [symmetric] written_def [symmetric] r_def [symmetric]
    using main by blast
qed

section \<open>Installing on a sample system\<close>

lemma quietWorld_fields [simp]:
  "privileged (quietWorld out)"
  "files (quietWorld out) = Map.empty"
  "fault (quietWorld out) = (\<lambda>tr c. None)"
  "executableOf (quietWorld out) = (\<lambda>n. Inr ''/usr/bin/foo'')"
  "trace (quietWorld out) = []"
  by (simp_all add: quietWorld_def)

lemma failingOn_fields [simp]:
  "privileged (failingOn cs w) = privileged w"
  "files (failingOn cs w) = files w"
  "fault (failingOn cs w) = (\<lambda>tr c. if c \<in> set cs then Some (ErrOS ''exit status 1'') else None)"
  "executableOf (failingOn cs w) = executableOf w"
  "trace (failingOn cs w) = trace w"
  by (simp_all add: failingOn_def)

theorem systemV_Install_registration_witness:
  "privileged (failingOn [Symlink ''/etc/init.d/foo'' ''/etc/rc3.d/S87foo''] (quietWorld []))
   \<and> \<not> isInstalled (SystemV fooRecord)
         (failingOn [Symlink ''/etc/init.d/foo'' ''/etc/rc3.d/S87foo''] (quietWorld []))
   \<and> executableOf (failingOn [Symlink ''/etc/init.d/foo'' ''/etc/rc3.d/S87foo''] (quietWorld []))
        (name fooRecord) = Inr ''/usr/bin/foo''
   \<and> fault (failingOn [Symlink ''/etc/init.d/foo'' ''/etc/rc3.d/S87foo''] (quietWorld []))
        [] (Create ''/etc/init.d/foo'') = None
   \<and> fault (failingOn [Symlink ''/etc/init.d/foo'' ''/etc/rc3.d/S87foo''] (quietWorld []))
        [Create ''/etc/init.d/foo'']
        (FileWrite ''/etc/init.d/foo'' (systemV_script fooRecord ''/usr/bin/foo'' [''--x''])) = None
   \<and> fst (invoke sampleMarkers (SystemV fooRecord) (InstallCall [''--x''])
            (failingOn [Symlink ''/etc/init.d/foo'' ''/etc/rc3.d/S87foo''] (quietWorld [])))
       = (''Install Foo Service:[  OK  ]'', None)
   \<and> trace (snd (invoke sampleMarkers (SystemV fooRecord) (InstallCall [''--x''])
                   (failingOn [Symlink ''/etc/init.d/foo'' ''/etc/rc3.d/S87foo''] (quietWorld []))))
       = [Create ''/etc/init.d/foo'',
          FileWrite ''/etc/init.d/foo'' (systemV_script fooRecord ''/usr/bin/foo'' [''--x'']),
          Chmod ''/etc/init.d/foo'' 493,
          Symlink ''/etc/init.d/foo'' ''/etc/rc2.d/S87foo'',
          Symlink ''/etc/init.d/foo'' ''/etc/rc3.d/S87foo'',
          Symlink ''/etc/init.d/foo'' ''/etc/rc4.d/S87foo'',
          Symlink ''/etc/init.d/foo'' ''/etc/rc5.d/S87foo'',
          Symlink ''/etc/init.d/foo'' ''/etc/rc0.d/K17foo'',
          Symlink ''/etc/init.d/foo'' ''/etc/rc1.d/K17foo'',
          Symlink ''/etc/init.d/foo'' ''/etc/rc6.d/K17foo'']
   \<and> files (snd (invoke sampleMarkers (SystemV fooRecord) (InstallCall [''--x''])
                   (failingOn [Symlink ''/etc/init.d/foo'' ''/etc/rc3.d/S87foo''] (quietWorld []))))
         ''/etc/rc4.d/S87foo''
       = Some (SymbolicLink ''/etc/init.d/foo'')"
proof -
  let ?w = "failingOn [Symlink ''/etc/init.d/foo'' ''/etc/rc3.d/S87foo''] (quietWorld [])"
  let ?r = "invoke sampleMarkers (SystemV fooRecord) (InstallCall [''--x'']) ?w"
  have p: "privileged ?w" by simp
  have ni: "\<not> isInstalled (SystemV fooRecord) ?w"
    by (simp add: systemV_isInstalled_def os_Stat_def)
  have exe: "executableOf ?w (name fooRecord) = Inr ''/usr/bin/foo''" by simp
  note T = systemV_Install_registration [OF p ni exe, of "[''--x'']" sampleMarkers]
  have a: "fst ?r = (''Install Foo Service:[  OK  ]'', None)"
    using T by (simp add: Let_def fooRecord_def sampleMarkers_def)
  have b: "trace (snd ?r)
       = [Create ''/etc/init.d/foo'',
          FileWrite ''/etc/init.d/foo'' (systemV_script fooRecord ''/usr/bin/foo'' [''--x'']),
          Chmod ''/etc/init.d/foo'' 493,
          Symlink ''/etc/init.d/foo'' ''/etc/rc2.d/S87foo'',
          Symlink ''/etc/init.d/foo'' ''/etc/rc3.d/S87foo'',
          Symlink ''/etc/init.d/foo'' ''/etc/rc4.d/S87foo'',
          Symlink ''/etc/init.d/foo'' ''/etc/rc5.d/S87foo'',
          Symlink ''/etc/init.d/foo'' ''/etc/rc0.d/K17foo'',
          Symlink ''/etc/init.d/foo'' ''/etc/rc1.d/K17foo'',
          Symlink ''/etc/init.d/foo'' ''/etc/rc6.d/K17foo'']"
    using T by (simp add: Let_def fooRecord_def)
  have "\<forall>k<7. k \<noteq> 1 \<longrightarrow>
          files (snd ?r)
            ([''/etc/rc2.d/S87foo'', ''/etc/rc3.d/S87foo'', ''/etc/rc4.d/S87foo'',
              ''/etc/rc5.d/S87foo'', ''/etc/rc0.d/K17foo'', ''/etc/rc1.d/K17foo'',
              ''/etc/rc6.d/K17foo''] ! k) = Some (SymbolicLink ''/etc/init.d/foo'')"
    using T by (simp add: Let_def fooRecord_def nth_Cons' less_Suc_eq)
  then have c: "files (snd ?r) ''/etc/rc4.d/S87foo'' = Some (SymbolicLink ''/etc/init.d/foo'')"
    by (auto dest!: spec [where x = 2])
  show ?thesis using p ni exe a b c by simp
qed

text \<open>
  With the change of mode failing, \<open>Install\<close> fails although the script has been written:
  the file holds the rendered script, and no link is tried.
\<close>

theorem systemV_Install_fails_after_write:
  "fst (invoke sampleMarkers (SystemV fooRecord) (InstallCall [''--x''])
          (failingOn [Chmod ''/etc/init.d/foo'' 493] (quietWorld [])))
     = (''Install Foo Service:[FAILED]'', Some (ErrOS ''exit status 1''))
   \<and> files (snd (invoke sampleMarkers (SystemV fooRecord) (InstallCall [''--x''])
                   (failingOn [Chmod ''/etc/init.d/foo'' 493] (quietWorld []))))
         ''/etc/init.d/foo''
       = Some (RegularFile (systemV_script fooRecord ''/usr/bin/foo'' [''--x'']) 438)
   \<and> trace (snd (invoke sampleMarkers (SystemV fooRecord) (InstallCall [''--x''])
                   (failingOn [Chmod ''/etc/init.d/foo'' 493] (quietWorld []))))
       = [Create ''/etc/init.d/foo'',
          FileWrite ''/etc/init.d/foo'' (systemV_script fooRecord ''/usr/bin/foo'' [''--x'']),
          Chmod ''/etc/init.d/foo'' 493]"
proof -
  let ?w = "failingOn [Chmod ''/etc/init.d/foo'' 493] (quietWorld [])"
  have p: "privileged ?w" by simp
  have ni: "\<not> systemV_isInstalled fooRecord ?w"
    by (simp add: systemV_isInstalled_def os_Stat_def)
  have exe: "executableOf ?w (name fooRecord) = Inr ''/usr/bin/foo''" by simp
  have c: "fault ?w (trace ?w) (Create (systemV_servicePath fooRecord)) = None" by simp
  have f: "fault ?w (trace ?w @ [Create (systemV_servicePath fooRecord)])
             (FileWrite (systemV_servicePath fooRecord)
                (systemV_script fooRecord ''/usr/bin/foo'' [''--x''])) = None"
    by simp
  show ?thesis
    unfolding invoke.simps systemV_Install_written [OF p ni exe c f]
    by (simp add: systemV_servicePath_def os_Chmod_def fooRecord_def sampleMarkers_def)
qed

section \<open>Installing twice\<close>

lemma os_Create_privileged: "os_Create p w = (e, w1) \<Longrightarrow> privileged w1 = privileged w"
  by (auto simp: os_Create_def split: option.splits)

lemma template_Execute_written:
  "template_Execute templ p data w = (None, w1) \<Longrightarrow>
   files w1 p \<noteq> None \<and> privileged w1 = privileged w"
  by (auto simp: template_Execute_def file_Write_def
        split: prod.splits option.splits node.splits)

lemma exec_Run_unchanged:
  "exec_Run args w = (e, w1) \<Longrightarrow> files w1 = files w \<and> privileged w1 = privileged w"
  by (auto simp: exec_Run_def)

lemma os_Chmod_kept:
  "os_Chmod p md w = (e, w1) \<Longrightarrow>
   privileged w1 = privileged w \<and> (files w p \<noteq> None \<longrightarrow> files w1 p \<noteq> None)"
  by (auto simp: os_Chmod_def split: option.splits node.splits)

lemma systemD_Install_installed:
  assumes ok: "snd (fst (systemD_Install m linux args w)) = None"
  shows "privileged (snd (systemD_Install m linux args w))
         \<and> systemD_isInstalled linux (snd (systemD_Install m linux args w))"
proof -
  note d = systemD_Install_def Let_def checkPrivileges_def
  define p where "p = systemD_servicePath linux"
  have priv: "privileged w" using ok by (auto simp: d split: if_splits)
  have ni: "\<not> systemD_isInstalled linux w" using ok priv by (auto simp: d split: if_splits)
  obtain e1 w1 where 1: "os_Create p w = (e1, w1)" by (cases "os_Create p w")
  have e1: "e1 = None"
    using ok priv ni 1 by (cases e1) (simp_all add: d p_def)
  obtain ep where x: "executablePath (name linux) w1 = Inr ep"
    using ok priv ni 1 e1 by (cases "executablePath (name linux) w1") (simp_all add: d p_def)
  obtain templ where t: "template_Parse systemDConfig = Inr templ"
    using ok priv ni 1 e1 x by (cases "template_Parse systemDConfig") (simp_all add: d p_def)
  obtain e2 w2 where 2: "template_Execute templ p
      (map_of [(''Name'', name linux), (''Port'', port linux), (''Version'', version linux),
               (''Description'', description linux),
               (''Dependencies'', strings_Join (dependencies linux) '' ''),
               (''Path'', strings_Join (ep # args) '' '')]) w1 = (e2, w2)"
    by (cases "template_Execute templ p
      (map_of [(''Name'', name linux), (''Port'', port linux), (''Version'', version linux),
               (''Description'', description linux),
               (''Dependencies'', strings_Join (dependencies linux) '' ''),
               (''Path'', strings_Join (ep # args) '' '')]) w1")
  have e2: "e2 = None"
    using ok priv ni 1 e1 x t 2 by (cases e2) (simp_all add: d p_def del: map_of.simps)
  have r: "snd (systemD_Install m linux args w) =
      attempt (Command [''systemctl'', ''enable'', name linux @ ''.service''])
        (attempt (Command [''systemctl'', ''daemon-reload'']) w2)
     \<or> snd (systemD_Install m linux args w) = attempt (Command [''systemctl'', ''daemon-reload'']) w2"
    using priv ni 1 e1 x t 2 e2
    by (simp add: d p_def exec_Run_def del: map_of.simps split: option.splits)
  have "files w2 p \<noteq> None" "privileged w2"
    using template_Execute_written [OF 2 [unfolded e2]] os_Create_privileged [OF 1] priv
    by simp_all
  then show ?thesis
    using r by (auto simp: systemD_isInstalled_def os_Stat_def p_def)
qed

lemma systemV_Install_installed:
  assumes ok: "snd (fst (systemV_Install m linux args w)) = None"
  shows "privileged (snd (systemV_Install m linux args w))
         \<and> systemV_isInstalled linux (snd (systemV_Install m linux args w))"
proof -
  note d = systemV_Install_def Let_def checkPrivileges_def
  define p where "p = systemV_servicePath linux"
  have priv: "privileged w" using ok by (auto simp: d split: if_splits)
  have ni: "\<not> systemV_isInstalled linux w" using ok priv by (auto simp: d split: if_splits)
  obtain e1 w1 where 1: "os_Create p w = (e1, w1)" by (cases "os_Create p w")
  have e1: "e1 = None"
    using ok priv ni 1 by (cases e1) (simp_all add: d p_def)
  obtain ep where x: "executablePath (name linux) w1 = Inr ep"
    using ok priv ni 1 e1 by (cases "executablePath (name linux) w1") (simp_all add: d p_def)
  obtain templ where t: "template_Parse systemVConfig = Inr templ"
    using ok priv ni 1 e1 x by (cases "template_Parse systemVConfig") (simp_all add: d p_def)
  obtain e2 w2 where 2: "template_Execute templ p
      (map_of [(''Name'', name linux), (''Port'', port linux), (''Version'', version linux),
               (''Description'', description linux), (''Path'', ep),
               (''Args'', strings_Join args '' '')]) w1 = (e2, w2)"
    by (cases "template_Execute templ p
      (map_of [(''Name'', name linux), (''Port'', port linux), (''Version'', version linux),
               (''Description'', description linux), (''Path'', ep),
               (''Args'', strings_Join args '' '')]) w1")
  have e2: "e2 = None"
    using ok priv ni 1 e1 x t 2 by (cases e2) (simp_all add: d p_def del: map_of.simps)
  obtain e3 w3 where 3: "os_Chmod p 493 w2 = (e3, w3)" by (cases "os_Chmod p 493 w2")
  have e3: "e3 = None"
    using ok priv ni 1 e1 x t 2 e2 3 by (cases e3) (simp_all add: d p_def del: map_of.simps)
  have r: "snd (systemV_Install m linux args w) =
      foldl (\<lambda>v l. snd (os_Symlink p l v)) w3 (systemV_links linux)"
    using priv ni 1 e1 x t 2 e2 3 e3
    by (simp add: d p_def systemV_links_def del: map_of.simps)
  have "files w2 p \<noteq> None" "privileged w2"
    using template_Execute_written [OF 2 [unfolded e2]] os_Create_privileged [OF 1] priv
    by simp_all
  then have "files w3 p \<noteq> None" "privileged w3"
    using os_Chmod_kept [OF 3] by simp_all
  moreover have "privileged (foldl (\<lambda>v l. snd (os_Symlink p l v)) v ls) = privileged v" for v ls
    by (induction ls arbitrary: v) simp_all
  ultimately show ?thesis
    by (simp add: r links_fold_files systemV_isInstalled_def os_Stat_def p_def [symmetric])
qed

lemma Install_installed:
  "snd (fst (invoke m d (InstallCall args) w)) = None \<Longrightarrow>
   privileged (snd (invoke m d (InstallCall args) w))
   \<and> isInstalled d (snd (invoke m d (InstallCall args) w))"
  by (cases d) (simp_all add: systemD_Install_installed systemV_Install_installed)

lemma Install_installed_before:
  "privileged w \<Longrightarrow> isInstalled d w \<Longrightarrow>
   invoke m d (InstallCall args) w =
     ((''Install '' @ description (descriptor d) @ '':'' @ failed m, Some ErrAlreadyInstalled), w)"
  by (cases d) (simp_all add: systemD_Install_def systemV_Install_def checkPrivileges_def Let_def)

text \<open>
  Claim C5. In both backends \<open>Install\<close>, called by a privileged process while the
  definition file of the service exists, returns \<open>ErrAlreadyInstalled\<close> and leaves the
  operating system exactly as it was: no file is created, written or changed and nothing
  is run. A successful \<open>Install\<close> leaves the definition file in place, so an \<open>Install\<close>
  that follows it at once, with any arguments, is such a call.
\<close>

theorem Install_twice:
  "privileged w \<Longrightarrow>
   (isInstalled d w \<longrightarrow>
      invoke m d (InstallCall args) w =
        ((''Install '' @ description (descriptor d) @ '':'' @ failed m,
          Some ErrAlreadyInstalled), w))
   \<and> (snd (fst (invoke m d (InstallCall args) w)) = None \<longrightarrow>
        invoke m d (InstallCall args') (snd (invoke m d (InstallCall args) w)) =
          ((''Install '' @ description (descriptor d) @ '':'' @ failed m,
            Some ErrAlreadyInstalled),
           snd (invoke m d (InstallCall args) w)))"
  using Install_installed [of m d args w] Install_installed_before by blast

theorem Install_twice_witness:
  "privileged (installedWorld []) \<and> isInstalled (SystemD fooRecord) (installedWorld [])
   \<and> invoke sampleMarkers (SystemD fooRecord) (InstallCall [''--x'']) (installedWorld [])
       = ((''Install Foo Service:[FAILED]'', Some ErrAlreadyInstalled), installedWorld [])
   \<and> privileged (quietWorld [])
   \<and> snd (fst (invoke sampleMarkers (SystemV fooRecord) (InstallCall [''--x'']) (quietWorld [])))
       = None
   \<and> invoke sampleMarkers (SystemV fooRecord) (InstallCall [''--y''])
        (snd (invoke sampleMarkers (SystemV fooRecord) (InstallCall [''--x'']) (quietWorld [])))
       = ((''Install Foo Service:[FAILED]'', Some ErrAlreadyInstalled),
          snd (invoke sampleMarkers (SystemV fooRecord) (InstallCall [''--x'']) (quietWorld [])))"
proof -
  have p: "privileged (installedWorld [])" "privileged (quietWorld [])"
    by (simp_all add: installedWorld_def)
  have i: "isInstalled (SystemD fooRecord) (installedWorld [])"
    by (simp add: installedWorld_def systemD_isInstalled_def os_Stat_def
          systemD_servicePath_def fooRecord_def)
  have ni: "\<not> systemV_isInstalled fooRecord (quietWorld [])"
    by (simp add: systemV_isInstalled_def os_Stat_def)
  have exe: "executableOf (quietWorld []) (name fooRecord) = Inr ''/usr/bin/foo''" by simp
  have c: "fault (quietWorld []) (trace (quietWorld []))
             (Create (systemV_servicePath fooRecord)) = None" by simp
  have f: "fault (quietWorld []) (trace (quietWorld []) @ [Create (systemV_servicePath fooRecord)])
             (FileWrite (systemV_servicePath fooRecord)
                (systemV_script fooRecord ''/usr/bin/foo'' [''--x''])) = None"
    by simp
  have s: "snd (fst (invoke sampleMarkers (SystemV fooRecord) (InstallCall [''--x''])
                       (quietWorld []))) = None"
    unfolding invoke.simps systemV_Install_written [OF p(2) ni exe c f]
    by (simp add: os_Chmod_def)
  show ?thesis
    using p i s
      Install_twice [OF p(1), of "SystemD fooRecord" sampleMarkers "[''--x'']"]
      Install_twice [OF p(2), of "SystemV fooRecord" sampleMarkers "[''--x'']" "[''--y'']"]
    by (simp add: fooRecord_def sampleMarkers_def)
qed

section \<open>The init-script status parser\<close>

lemma regexp_literal:
  "literalName n \<Longrightarrow> regexp_MatchString w n s = (contains s n, None)"
proof -
  assume l: "literalName n"
  then have nd: "CHR ''.'' \<notin> set n"
    by (auto simp: literalName_def metachars_def list_all_iff)
  have "inFragment n s"
    using l nd by (auto simp: inFragment_def literalName_def list_all_iff)
  then show ?thesis
    by (simp add: regexp_MatchString_def matchAnywhere_literal [OF nd])
qed

lemma literalName_running: "literalName ''running''"
  by (simp add: literalName_def ascii_def metachars_def)

text \<open>
  For a service name without regular-expression metacharacters the parser does what is
  asked of it: running exactly when \<open>service <name> status\<close> returned no error and its
  output contains both \<open>running\<close> and the name, with the digits of the leftmost
  \<open>pid  <digits>\<close> in the message when there are any.
\<close>

lemma systemV_checkRunning_literal_name:
  assumes "literalName (name linux)"
  shows "(let cmd = [''service'', name linux, ''status''];
              out = stdout w (trace w) cmd;
              running = (fault w (trace w) (Command cmd) = None
                         \<and> contains out ''running'' \<and> contains out (name linux));
              res = fst (systemV_checkRunning linux w)
          in snd res = running
           \<and> (\<forall>pre d post. running \<and> leftmostDigits ''pid  '' out pre d post \<longrightarrow>
                  fst res = ''Service '' @ name linux @ '' (pid  '' @ d @ '') is running...'')
           \<and> (running \<and> \<not> (\<exists>c. isDigit c \<and> contains out (''pid  '' @ [c])) \<longrightarrow>
                  fst res = ''Service '' @ name linux @ '' is running...'')
           \<and> (\<not> running \<longrightarrow> fst res = ''Service '' @ name linux @ '' is stopped''))"
proof -
  define cmd where "cmd = [''service'', name linux, ''status'']"
  define out where "out = stdout w (trace w) cmd"
  define running where
    "running = (fault w (trace w) (Command cmd) = None
                \<and> contains out ''running'' \<and> contains out (name linux))"
  define res where "res = fst (systemV_checkRunning linux w)"
  have r: "res =
    (if running
     then (let data = findDigitsSubmatch ''pid  '' out
           in if length data > 1
              then (''Service '' @ name linux @ '' (pid  '' @ data ! 1 @ '') is running...'', True)
              else (''Service '' @ name linux @ '' is running...'', True))
     else (''Service '' @ name linux @ '' is stopped'', False))"
    unfolding res_def running_def out_def cmd_def
    by (simp add: systemV_checkRunning_def exec_Output_def Let_def
          regexp_literal [OF literalName_running] regexp_literal [OF assms])
  have 1: "snd res = running" by (simp add: r Let_def)
  have 2: "fst res = ''Service '' @ name linux @ '' (pid  '' @ d @ '') is running...''"
    if "running" "leftmostDigits ''pid  '' out pre d post" for pre d post
    using that(1) findDigitsSubmatch_leftmost [OF that(2)] by (simp add: r)
  have 3: "fst res = ''Service '' @ name linux @ '' is running...''"
    if "running" "\<not> (\<exists>c. isDigit c \<and> contains out (''pid  '' @ [c]))"
  proof -
    have "findDigitsSubmatch ''pid  '' out = []"
      using that(2) findDigitsSubmatch_Nil [of "''pid  ''" out] by blast
    then show ?thesis using that(1) by (simp add: r)
  qed
  have 4: "fst res = ''Service '' @ name linux @ '' is stopped''" if "\<not> running"
    using that by (simp add: r)
  show ?thesis
    unfolding Let_def cmd_def [symmetric] out_def [symmetric] running_def [symmetric]
      res_def [symmetric]
    using 1 2 3 4 by blast
qed

text \<open>
  Claim C3 does not hold of the code for every service name. The name is given to
  \<open>regexp.MatchString\<close> as a pattern, so a dot in it stands for any character: for the
  service \<open>a.b\<close> and the output \<open>axb is running\<close>, which does not contain the name, the
  parser reports running. The spec's own example, \<open>Service foo (pid  99) is running...\<close>
  for the service \<open>foo\<close>, is parsed as the spec says.
\<close>

theorem systemV_checkRunning_name_as_pattern:
  "\<not> contains ''axb is running'' ''a.b''
   \<and> systemV_checkRunning (fooRecord\<lparr>name := ''a.b''\<rparr>) (quietWorld ''axb is running'')
       = ((''Service a.b is running...'', True),
          attempt (Command [''service'', ''a.b'', ''status'']) (quietWorld ''axb is running''))
   \<and> systemV_checkRunning fooRecord (quietWorld ''Service foo (pid  99) is running...'')
       = ((''Service foo (pid  99) is running...'', True),
          attempt (Command [''service'', ''foo'', ''status''])
            (quietWorld ''Service foo (pid  99) is running...''))"
  by (simp add: systemV_checkRunning_def exec_Output_def Let_def regexp_MatchString_def
        inFragment_def ascii_def metachars_def submatchHere_def isDigit_def
        quietWorld_def fooRecord_def attempt_def)

section \<open>The rendered init script\<close>





end
